theory Spec2Isabelle
  imports Main
begin

section \<open>Tenants and stored items\<close>

text \<open>
  \<^verbatim>\<open>common/tenant.py\<close>: a tenant is an account in a region; every table key starts with the
  tenant's ARN prefix \<^verbatim>\<open>arn:aws:ccf:{region}:{account_id}\<close>.
\<close>

record TenantContext =
  account_id :: string
  region :: string

definition get_arn_prefix :: "TenantContext \<Rightarrow> string" where
  "get_arn_prefix tc = ''arn:aws:ccf:'' @ region tc @ '':'' @ account_id tc"

definition get_connector_arn :: "TenantContext \<Rightarrow> string \<Rightarrow> string" where
  "get_connector_arn tc connector_id = get_arn_prefix tc @ '':custom-connector/'' @ connector_id"

datatype ConnectorStatus = AVAILABLE | IN_USE

datatype JobStatus = STARTED | RUNNING | STOPPING | STOPPED | FAILED | SUCCEEDED

text \<open>
  \<^verbatim>\<open>ContainerProperties\<close> is the validated model; the dictionary kept in the table is
  what \<^verbatim>\<open>model_dump()\<close> of either \<^verbatim>\<open>ContainerProperties\<close> or
  \<^verbatim>\<open>UpdateContainerProperties\<close> wrote, so every entry of the stored dictionary may be
  \<^verbatim>\<open>None\<close>. The cpu share is a \<^verbatim>\<open>Decimal\<close>, kept here as its decimal text.
\<close>

record ResourceRequirements =
  cpu :: string
  memory :: int

record ContainerProperties =
  execution_role_arn :: string
  image_uri :: string
  job_role_arn :: string
  resource_requirements :: ResourceRequirements
  timeout :: int

record UpdateResourceRequirements =
  u_cpu :: "string option"
  u_memory :: "int option"

record UpdateContainerProperties =
  u_execution_role_arn :: "string option"
  u_image_uri :: "string option"
  u_job_role_arn :: "string option"
  u_resource_requirements :: "UpdateResourceRequirements option"
  u_timeout :: "int option"

definition model_dump :: "ContainerProperties \<Rightarrow> UpdateContainerProperties" where
  "model_dump cp =
     \<lparr>u_execution_role_arn = Some (execution_role_arn cp),
      u_image_uri = Some (image_uri cp),
      u_job_role_arn = Some (job_role_arn cp),
      u_resource_requirements =
        Some \<lparr>u_cpu = Some (cpu (resource_requirements cp)),
              u_memory = Some (memory (resource_requirements cp))\<rparr>,
      u_timeout = Some (timeout cp)\<rparr>"

text \<open>
  \<^verbatim>\<open>ContainerProperties.model_validate\<close>: every field is required once its key is present,
  and \<^verbatim>\<open>timeout\<close> carries \<^verbatim>\<open>ge=0\<close>. \<^verbatim>\<open>None\<close> stands for pydantic's ValidationError.
\<close>

definition model_validate :: "UpdateContainerProperties \<Rightarrow> ContainerProperties option" where
  "model_validate d =
     (case (u_execution_role_arn d, u_image_uri d, u_job_role_arn d,
            u_resource_requirements d, u_timeout d) of
        (Some e, Some i, Some j, Some r, Some t) \<Rightarrow>
          (case (u_cpu r, u_memory r) of
             (Some c, Some m) \<Rightarrow>
               if 0 \<le> t
               then Some \<lparr>execution_role_arn = e, image_uri = i, job_role_arn = j,
                          resource_requirements = \<lparr>cpu = c, memory = m\<rparr>, timeout = t\<rparr>
               else None
           | _ \<Rightarrow> None)
      | _ \<Rightarrow> None)"

record Checkpoint =
  checkpoint_data :: string
  cp_created_at :: string
  cp_updated_at :: string

text \<open>An item of the CustomConnectors table. \<^verbatim>\<open>version\<close> and \<^verbatim>\<open>checkpoint\<close> are attributes
  that may be absent; the DAO reads the first with \<^verbatim>\<open>item.get("version", 1)\<close>.\<close>

record connector_item =
  c_connector_id :: string
  c_arn :: string
  c_name :: string
  c_description :: "string option"
  c_container_properties :: UpdateContainerProperties
  c_status :: ConnectorStatus
  c_created_at :: string
  c_updated_at :: string
  c_version :: "int option"
  c_checkpoint :: "Checkpoint option"

text \<open>An item of the CustomConnectorJobs table. The environment is a list of name/value pairs;
  \<^verbatim>\<open>ttl\<close> is stored as the decimal text of an epoch second.\<close>

record job_item =
  j_job_id :: string
  j_connector_id :: string
  j_status :: JobStatus
  j_environment :: "(string \<times> string) list"
  j_created_at :: string
  j_updated_at :: string
  j_batch_job_id :: "string option"
  j_ttl :: "string option"

section \<open>The world a handler invocation runs in\<close>

text \<open>
  Every invocation is stateless; what it shares with the others is the two tables. The
  world also holds what the invocation reads from its surroundings: the clock
  (\<^verbatim>\<open>datetime.now(UTC)\<close>, as ISO text and as whole epoch seconds), the hexadecimal text the
  next \<^verbatim>\<open>uuid4()\<close> yields, the answers of the batch-compute service, and the log of the calls
  made to that service.
\<close>

type_synonym ddb_key = "string \<times> string"

datatype batch_call =
  RegisterJobDefinition string ContainerProperties "(string \<times> string) list"
| SubmitJob string string int
| CancelJob string

record world =
  connectors_table :: "ddb_key \<rightharpoonup> connector_item"
  jobs_table :: "ddb_key \<rightharpoonup> job_item"
  clock_iso :: string
  clock_epoch :: int
  uuid_hex :: string
  batch_service :: "batch_call \<Rightarrow> string option"
  batch_calls :: "batch_call list"

text \<open>
  The storage engine is a collaborator. Each call to it meets one action of the
  surroundings: nothing happens (\<open>Quiet\<close>), the call raises botocore's \<^verbatim>\<open>ClientError\<close> for
  a reason other than a failed condition, or other invocations change the world just before
  the call is served (\<open>Race\<close>). A schedule lists the actions the coming calls will meet;
  when it is exhausted the surroundings stay quiet.
\<close>

datatype env_action = Quiet | ClientError | Race "world \<Rightarrow> world"

type_synonym state = "world \<times> env_action list"

fun ddb_call :: "state \<Rightarrow> bool \<times> state" where
  "ddb_call (w, []) = (False, (w, []))"
| "ddb_call (w, Quiet # es) = (False, (w, es))"
| "ddb_call (w, ClientError # es) = (True, (w, es))"
| "ddb_call (w, Race f # es) = (False, (f w, es))"

section \<open>CustomConnectorsDao\<close>

datatype connector_dao_error =
  ConnectorDaoConflictError
| ConnectorDaoNotFoundError
| ConnectorDaoInternalError
| ValidationError

definition connector_key :: "TenantContext \<Rightarrow> string \<Rightarrow> ddb_key" where
  "connector_key tc connector_id = (get_arn_prefix tc, connector_id)"

record GetConnectorResponse =
  r_connector_id :: string
  r_arn :: string
  r_name :: string
  r_created_at :: string
  r_updated_at :: string
  r_container_properties :: ContainerProperties
  r_description :: "string option"
  r_status :: ConnectorStatus
  r_checkpoint :: "Checkpoint option"
  r_version :: int

definition item_version :: "connector_item \<Rightarrow> int" where
  "item_version item = (case c_version item of None \<Rightarrow> 1 | Some v \<Rightarrow> v)"

definition get_connector ::
  "TenantContext \<Rightarrow> string \<Rightarrow> state \<Rightarrow> (connector_dao_error + GetConnectorResponse) \<times> state" where
  "get_connector tc connector_id s =
     (case ddb_call s of
        (True, s1) \<Rightarrow> (Inl ConnectorDaoInternalError, s1)
      | (False, s1) \<Rightarrow>
          (case connectors_table (fst s1) (connector_key tc connector_id) of
             None \<Rightarrow> (Inl ConnectorDaoNotFoundError, s1)
           | Some item \<Rightarrow>
               (case model_validate (c_container_properties item) of
                  None \<Rightarrow> (Inl ValidationError, s1)
                | Some props \<Rightarrow>
                    (Inr \<lparr>r_connector_id = c_connector_id item, r_arn = c_arn item,
                          r_name = c_name item, r_created_at = c_created_at item,
                          r_updated_at = c_updated_at item, r_container_properties = props,
                          r_description = c_description item, r_status = c_status item,
                          r_checkpoint = c_checkpoint item,
                          r_version = item_version item\<rparr>, s1))))"

text \<open>
  \<^verbatim>\<open>update_item\<close> and \<^verbatim>\<open>put_item\<close> with \<^verbatim>\<open>ConditionExpression="version = :current_version"\<close>:
  the engine compares the stored attribute with the supplied value and writes only when
  they are equal. An absent item, or an item without the attribute, fails the condition,
  which the DAO turns into its conflict error.
\<close>

definition write_if_version ::
  "ddb_key \<Rightarrow> int \<Rightarrow> (connector_item \<Rightarrow> connector_item) \<Rightarrow> state
     \<Rightarrow> (connector_dao_error + unit) \<times> state" where
  "write_if_version key current_version upd s =
     (case ddb_call s of
        (True, s1) \<Rightarrow> (Inl ConnectorDaoInternalError, s1)
      | (False, (w, es)) \<Rightarrow>
          (case connectors_table w key of
             None \<Rightarrow> (Inl ConnectorDaoConflictError, (w, es))
           | Some stored \<Rightarrow>
               if c_version stored = Some current_version
               then (Inr (), (w\<lparr>connectors_table := (connectors_table w)(key \<mapsto> upd stored)\<rparr>, es))
               else (Inl ConnectorDaoConflictError, (w, es))))"

definition update_connector_status ::
  "TenantContext \<Rightarrow> string \<Rightarrow> ConnectorStatus \<Rightarrow> state \<Rightarrow> (connector_dao_error + unit) \<times> state" where
  "update_connector_status tc connector_id new_status s =
     (let now_iso = clock_iso (fst s) in
      case ddb_call s of
        (True, s1) \<Rightarrow> (Inl ConnectorDaoInternalError, s1)
      | (False, s1) \<Rightarrow>
          (case connectors_table (fst s1) (connector_key tc connector_id) of
             None \<Rightarrow> (Inl ConnectorDaoNotFoundError, s1)
           | Some item \<Rightarrow>
               (let current_version = item_version item;
                    new_version = current_version + 1
                in write_if_version (connector_key tc connector_id) current_version
                     (\<lambda>stored. stored\<lparr>c_status := new_status, c_version := Some new_version,
                                       c_updated_at := now_iso\<rparr>) s1)))"

definition put_checkpoint ::
  "TenantContext \<Rightarrow> string \<Rightarrow> string \<Rightarrow> state \<Rightarrow> (connector_dao_error + unit) \<times> state" where
  "put_checkpoint tc connector_id data s =
     (let now_iso = clock_iso (fst s);
          checkpoint_obj = \<lparr>checkpoint_data = data, cp_created_at = now_iso,
                            cp_updated_at = now_iso\<rparr>
      in case ddb_call s of
        (True, s1) \<Rightarrow> (Inl ConnectorDaoInternalError, s1)
      | (False, s1) \<Rightarrow>
          (case connectors_table (fst s1) (connector_key tc connector_id) of
             None \<Rightarrow> (Inl ConnectorDaoNotFoundError, s1)
           | Some item \<Rightarrow>
               (let current_version = item_version item;
                    new_version = current_version + 1
                in write_if_version (connector_key tc connector_id) current_version
                     (\<lambda>stored. stored\<lparr>c_checkpoint := Some checkpoint_obj,
                                       c_version := Some new_version,
                                       c_updated_at := now_iso\<rparr>) s1)))"

definition delete_checkpoint ::
  "TenantContext \<Rightarrow> string \<Rightarrow> state \<Rightarrow> (connector_dao_error + unit) \<times> state" where
  "delete_checkpoint tc connector_id s =
     (let now_iso = clock_iso (fst s) in
      case ddb_call s of
        (True, s1) \<Rightarrow> (Inl ConnectorDaoInternalError, s1)
      | (False, s1) \<Rightarrow>
          (case connectors_table (fst s1) (connector_key tc connector_id) of
             None \<Rightarrow> (Inl ConnectorDaoNotFoundError, s1)
           | Some item \<Rightarrow>
               if c_checkpoint item = None then (Inl ConnectorDaoNotFoundError, s1)
               else
                 (let current_version = item_version item;
                      new_version = current_version + 1
                  in write_if_version (connector_key tc connector_id) current_version
                       (\<lambda>stored. stored\<lparr>c_checkpoint := None, c_version := Some new_version,
                                         c_updated_at := now_iso\<rparr>) s1)))"

record UpdateConnectorRequest =
  uc_tenant_context :: TenantContext
  uc_connector_id :: string
  uc_name :: "string option"
  uc_description :: "string option"
  uc_container_properties :: "UpdateContainerProperties option"

record UpdateConnectorResponse =
  ur_connector_id :: string
  ur_arn :: string
  ur_name :: string
  ur_created_at :: string
  ur_updated_at :: string
  ur_description :: "string option"
  ur_status :: ConnectorStatus
  ur_version :: int

text \<open>\<^verbatim>\<open>update_connector\<close> is a read-modify-write: the item read is changed in memory and
  written back whole by a conditional \<^verbatim>\<open>put_item\<close>.\<close>

definition update_connector ::
  "UpdateConnectorRequest \<Rightarrow> state \<Rightarrow> (connector_dao_error + UpdateConnectorResponse) \<times> state" where
  "update_connector request s =
     (let key = connector_key (uc_tenant_context request) (uc_connector_id request);
          now_iso = clock_iso (fst s)
      in case ddb_call s of
        (True, s1) \<Rightarrow> (Inl ConnectorDaoInternalError, s1)
      | (False, s1) \<Rightarrow>
          (case connectors_table (fst s1) key of
             None \<Rightarrow> (Inl ConnectorDaoNotFoundError, s1)
           | Some item \<Rightarrow>
               (let current_version = item_version item;
                    new_version = current_version + 1;
                    item1 = (case uc_name request of None \<Rightarrow> item
                             | Some n \<Rightarrow> item\<lparr>c_name := n\<rparr>);
                    item2 = (case uc_description request of None \<Rightarrow> item1
                             | Some d \<Rightarrow> item1\<lparr>c_description := Some d\<rparr>);
                    item3 = (case uc_container_properties request of None \<Rightarrow> item2
                             | Some p \<Rightarrow> item2\<lparr>c_container_properties := p\<rparr>);
                    item4 = item3\<lparr>c_updated_at := now_iso, c_version := Some new_version\<rparr>
                in case write_if_version key current_version (\<lambda>stored. item4) s1 of
                     (Inl e, s2) \<Rightarrow> (Inl e, s2)
                   | (Inr u, s2) \<Rightarrow>
                       (Inr \<lparr>ur_connector_id = c_connector_id item4, ur_arn = c_arn item4,
                             ur_name = c_name item4, ur_created_at = c_created_at item4,
                             ur_updated_at = c_updated_at item4,
                             ur_description = c_description item4,
                             ur_status = c_status item4, ur_version = new_version\<rparr>, s2))))"

section \<open>CustomConnectorJobsDao\<close>

text \<open>
  The jobs DAO has its own three exception classes. Its \<^verbatim>\<open>except\<close> clauses name the
  not-found and the internal error of the connectors DAO only, so any other exception of
  the connectors DAO leaves the jobs DAO as it is (\<open>Uncaught\<close>).
\<close>

datatype job_dao_error =
  DaoConflictError
| DaoResourceNotFoundError
| DaoInternalError
| Uncaught connector_dao_error

fun from_connector_dao :: "connector_dao_error \<Rightarrow> job_dao_error" where
  "from_connector_dao ConnectorDaoNotFoundError = DaoResourceNotFoundError"
| "from_connector_dao ConnectorDaoInternalError = DaoInternalError"
| "from_connector_dao e = Uncaught e"

definition job_key :: "TenantContext \<Rightarrow> string \<Rightarrow> ddb_key" where
  "job_key tc job_id = (get_arn_prefix tc, job_id)"

text \<open>Python's \<^verbatim>\<open>str\<close> of an integer, used for the \<^verbatim>\<open>ttl\<close> attribute.\<close>

fun str_nat :: "nat \<Rightarrow> string" where
  "str_nat n =
     (if n < 10 then [''0123456789'' ! n]
      else str_nat (n div 10) @ [''0123456789'' ! (n mod 10)])"

declare str_nat.simps [simp del]

definition str :: "int \<Rightarrow> string" where
  "str i = (if i < 0 then CHR ''-'' # str_nat (nat (- i)) else str_nat (nat i))"

definition TTL_DAYS_AFTER_STOP :: int where
  "TTL_DAYS_AFTER_STOP = 7"

definition verify_connector_exists ::
  "TenantContext \<Rightarrow> string \<Rightarrow> state \<Rightarrow> (job_dao_error + unit) \<times> state" where
  "verify_connector_exists tc connector_id s =
     (case get_connector tc connector_id s of
        (Inl e, s1) \<Rightarrow> (Inl (from_connector_dao e), s1)
      | (Inr found, s1) \<Rightarrow> (Inr (), s1))"

record StartJobResponse =
  sr_job_id :: string
  sr_connector_id :: string
  sr_status :: JobStatus
  sr_created_at :: string

definition start_job ::
  "TenantContext \<Rightarrow> string \<Rightarrow> (string \<times> string) list \<Rightarrow> state
     \<Rightarrow> (job_dao_error + StartJobResponse) \<times> state" where
  "start_job tc connector_id environment s =
     (case get_connector tc connector_id s of
        (Inl e, s1) \<Rightarrow> (Inl (from_connector_dao e), s1)
      | (Inr connector_info, s1) \<Rightarrow>
          if r_status connector_info \<noteq> AVAILABLE then (Inl DaoConflictError, s1)
          else
            (case update_connector_status tc connector_id IN_USE s1 of
               (Inl e, s2) \<Rightarrow> (Inl (from_connector_dao e), s2)
             | (Inr marked, s2) \<Rightarrow>
                 (let now_iso = clock_iso (fst s2);
                      job_id = ''ccj-'' @ take 12 (uuid_hex (fst s2));
                      item = \<lparr>j_job_id = job_id, j_connector_id = connector_id,
                              j_status = STARTED, j_environment = environment,
                              j_created_at = now_iso, j_updated_at = now_iso,
                              j_batch_job_id = None, j_ttl = None\<rparr>
                  in case ddb_call s2 of
                       (True, s3) \<Rightarrow>
                         (Inl DaoInternalError,
                          snd (update_connector_status tc connector_id AVAILABLE s3))
                     | (False, (w, es)) \<Rightarrow>
                         (Inr \<lparr>sr_job_id = job_id, sr_connector_id = connector_id,
                               sr_status = STARTED, sr_created_at = now_iso\<rparr>,
                          (w\<lparr>jobs_table := (jobs_table w)(job_key tc job_id \<mapsto> item)\<rparr>,
                           es)))))"

record UpdateJobStatusRequest =
  tenant_context :: TenantContext
  connector_id :: string
  job_id :: string
  status :: JobStatus
  batch_job_id :: "string option"

text \<open>The \<^verbatim>\<open>SET\<close> expression that \<^verbatim>\<open>update_job_status\<close> assembles, applied to the stored
  item: status and \<^verbatim>\<open>updated_at\<close> always, \<^verbatim>\<open>batch_job_id\<close> when the request carries one,
  \<^verbatim>\<open>ttl\<close> when the new status is STOPPED, FAILED or SUCCEEDED.\<close>

definition update_expr :: "UpdateJobStatusRequest \<Rightarrow> string \<Rightarrow> int \<Rightarrow> job_item \<Rightarrow> job_item" where
  "update_expr request now_iso now_epoch stored =
     (let i1 = stored\<lparr>j_status := status request, j_updated_at := now_iso\<rparr>;
          i2 = (case batch_job_id request of None \<Rightarrow> i1
                | Some b \<Rightarrow> i1\<lparr>j_batch_job_id := Some b\<rparr>)
      in if status request \<in> {STOPPED, FAILED, SUCCEEDED}
         then i2\<lparr>j_ttl := Some (str (now_epoch + TTL_DAYS_AFTER_STOP * 24 * 60 * 60))\<rparr>
         else i2)"

text \<open>Steps 1 to 3 of \<^verbatim>\<open>update_job_status\<close>: verify the connector, read the job, reject a
  job read as STOPPED or FAILED, then write the job under \<^verbatim>\<open>attribute_exists(job_id)\<close>.\<close>

definition apply_update ::
  "UpdateJobStatusRequest \<Rightarrow> state \<Rightarrow> (job_dao_error + unit) \<times> state" where
  "apply_update request s =
     (case verify_connector_exists (tenant_context request) (connector_id request) s of
        (Inl e, s1) \<Rightarrow> (Inl e, s1)
      | (Inr verified, s1) \<Rightarrow>
          (let key = job_key (tenant_context request) (job_id request) in
           case ddb_call s1 of
             (True, s2) \<Rightarrow> (Inl DaoInternalError, s2)
           | (False, s2) \<Rightarrow>
               (case jobs_table (fst s2) key of
                  None \<Rightarrow> (Inl DaoResourceNotFoundError, s2)
                | Some item \<Rightarrow>
                    if j_status item \<in> {STOPPED, FAILED} then (Inl DaoConflictError, s2)
                    else
                      (let now_iso = clock_iso (fst s2);
                           now_epoch = clock_epoch (fst s2)
                       in case ddb_call s2 of
                            (True, s3) \<Rightarrow> (Inl DaoInternalError, s3)
                          | (False, (w, es)) \<Rightarrow>
                              (case jobs_table w key of
                                 None \<Rightarrow> (Inl DaoResourceNotFoundError, (w, es))
                               | Some stored \<Rightarrow>
                                   (Inr (),
                                    (w\<lparr>jobs_table := (jobs_table w)
                                         (key \<mapsto> update_expr request now_iso now_epoch stored)\<rparr>,
                                     es)))))))"

text \<open>Step 4 follows when \<^verbatim>\<open>mark_available\<close> was set, that is when the new status is
  STOPPED, FAILED or SUCCEEDED: the connector is made AVAILABLE, and only the not-found
  error of that call is dropped.\<close>

definition update_job_status ::
  "UpdateJobStatusRequest \<Rightarrow> state \<Rightarrow> (job_dao_error + unit) \<times> state" where
  "update_job_status request s =
     (case apply_update request s of
        (Inl e, s4) \<Rightarrow> (Inl e, s4)
      | (Inr updated, s4) \<Rightarrow>
          if status request \<in> {STOPPED, FAILED, SUCCEEDED}
          then
            (case update_connector_status (tenant_context request) (connector_id request)
                    AVAILABLE s4 of
               (Inl ConnectorDaoNotFoundError, s5) \<Rightarrow> (Inr (), s5)
             | (Inl e, s5) \<Rightarrow> (Inl (from_connector_dao e), s5)
             | (Inr flipped, s5) \<Rightarrow> (Inr (), s5))
          else (Inr (), s4))"

section \<open>Lifecycle controller: \<^verbatim>\<open>job_orchestrator_handler.py\<close>\<close>

fun status_value :: "JobStatus \<Rightarrow> string" where
  "status_value STARTED = ''STARTED''"
| "status_value RUNNING = ''RUNNING''"
| "status_value STOPPING = ''STOPPING''"
| "status_value STOPPED = ''STOPPED''"
| "status_value FAILED = ''FAILED''"
| "status_value SUCCEEDED = ''SUCCEEDED''"

text \<open>
  \<^verbatim>\<open>TenantContext.from_arn_prefix\<close> matches \<^verbatim>\<open>arn:aws:ccf:([^:]+):(\d+)\<close> at the start of
  the text (\<^verbatim>\<open>re.match\<close>); both groups are greedy. \<open>None\<close> stands for BadRequestError.
\<close>

definition is_digit :: "char \<Rightarrow> bool" where
  "is_digit c = (c \<in> set ''0123456789'')"

definition from_arn_prefix :: "string \<Rightarrow> TenantContext option" where
  "from_arn_prefix arn_prefix =
     (let lead = ''arn:aws:ccf:'' in
      if take (length lead) arn_prefix \<noteq> lead then None
      else
        (let rest = drop (length lead) arn_prefix;
             reg = takeWhile (\<lambda>c. c \<noteq> CHR '':'') rest
         in case dropWhile (\<lambda>c. c \<noteq> CHR '':'') rest of
              [] \<Rightarrow> None
            | colon # rest2 \<Rightarrow>
                (let acct = takeWhile is_digit rest2
                 in if reg = [] \<or> acct = [] then None
                    else Some \<lparr>account_id = acct, region = reg\<rparr>)))"

text \<open>The two settings of \<^verbatim>\<open>common/env.py\<close> the controller uses.\<close>

record lambda_env =
  AWS_BATCH_JOB_QUEUE :: string
  CUSTOM_CONNECTOR_API_ENDPOINT :: string

text \<open>The new image of a change-feed record; every attribute may be missing.\<close>

record new_image =
  ni_job_id :: "string option"
  ni_connector_id :: "string option"
  ni_custom_connector_arn_prefix :: "string option"
  ni_status :: "string option"
  ni_batch_job_id :: "string option"
  ni_environment :: "(string \<times> string) list option"

record JobStartContext =
  ctx_job_id :: string
  ctx_connector_id :: string
  ctx_custom_connector_arn_prefix :: string
  ctx_environment :: "(string \<times> string) list"
  ctx_tenant_context :: TenantContext

text \<open>A call to the batch-compute client is logged, then answered by the service:
  \<open>None\<close> when the client raises, otherwise the ARN or job id in the response.\<close>

definition batch_invoke :: "batch_call \<Rightarrow> state \<Rightarrow> string option \<times> state" where
  "batch_invoke c s =
     (batch_service (fst s) c, ((fst s)\<lparr>batch_calls := batch_calls (fst s) @ [c]\<rparr>, snd s))"

text \<open>The compensation both handlers run in their \<^verbatim>\<open>except\<close> branch: mark the job FAILED,
  then make the connector AVAILABLE; an exception of either is logged and dropped.\<close>

definition mark_failed ::
  "TenantContext \<Rightarrow> string \<Rightarrow> string \<Rightarrow> string option \<Rightarrow> state \<Rightarrow> state" where
  "mark_failed tc cid jid bid s =
     (case update_job_status \<lparr>tenant_context = tc, connector_id = cid, job_id = jid,
                               status = FAILED, batch_job_id = bid\<rparr> s of
        (Inl e, s1) \<Rightarrow> s1
      | (Inr done, s1) \<Rightarrow> snd (update_connector_status tc cid AVAILABLE s1))"

text \<open>The execution environment \<^verbatim>\<open>handle_job_start\<close> composes: job, connector and API
  context first, then the variables the job record carries.\<close>

definition compose_environment ::
  "lambda_env \<Rightarrow> JobStartContext \<Rightarrow> string \<Rightarrow> (string \<times> string) list" where
  "compose_environment cfg ctx connector_arn =
     [(''CUSTOM_CONNECTOR_JOB_ID'', ctx_job_id ctx),
      (''CUSTOM_CONNECTOR_FRAMEWORK_CUSTOM_CONNECTOR_ID'', ctx_connector_id ctx),
      (''CUSTOM_CONNECTOR_FRAMEWORK_CUSTOM_CONNECTOR_ARN'', connector_arn),
      (''CUSTOM_CONNECTOR_FRAMEWORK_CUSTOM_CONNECTOR_ARN_PREFIX'',
       ctx_custom_connector_arn_prefix ctx),
      (''AWS_REGION'', region (ctx_tenant_context ctx)),
      (''CUSTOM_CONNECTOR_FRAMEWORK_API_ENDPOINT'', CUSTOM_CONNECTOR_API_ENDPOINT cfg)]
     @ ctx_environment ctx"

text \<open>The \<^verbatim>\<open>try\<close> body of \<^verbatim>\<open>handle_job_start\<close>; \<open>True\<close> reports that it raised.\<close>

definition start_attempt :: "lambda_env \<Rightarrow> JobStartContext \<Rightarrow> state \<Rightarrow> bool \<times> state" where
  "start_attempt cfg ctx s =
     (case get_connector (ctx_tenant_context ctx) (ctx_connector_id ctx) s of
        (Inl e, s1) \<Rightarrow> (True, s1)
      | (Inr connector, s1) \<Rightarrow>
          (let container_props = r_container_properties connector;
               environment = compose_environment cfg ctx (r_arn connector)
           in case batch_invoke
                     (RegisterJobDefinition (ctx_job_id ctx) container_props environment) s1 of
                (None, s2) \<Rightarrow> (True, s2)
              | (Some job_definition_arn, s2) \<Rightarrow>
                  (case batch_invoke (SubmitJob (ctx_job_id ctx) job_definition_arn
                                        (timeout container_props)) s2 of
                     (None, s3) \<Rightarrow> (True, s3)
                   | (Some submitted_id, s3) \<Rightarrow>
                       (case update_job_status
                               \<lparr>tenant_context = ctx_tenant_context ctx,
                                connector_id = ctx_connector_id ctx, job_id = ctx_job_id ctx,
                                status = RUNNING, batch_job_id = Some submitted_id\<rparr> s3 of
                          (Inl e, s4) \<Rightarrow> (True, s4)
                        | (Inr done, s4) \<Rightarrow> (False, s4)))))"

definition handle_job_start :: "lambda_env \<Rightarrow> JobStartContext \<Rightarrow> state \<Rightarrow> state" where
  "handle_job_start cfg ctx s =
     (case start_attempt cfg ctx s of
        (False, s1) \<Rightarrow> s1
      | (True, s1) \<Rightarrow>
          mark_failed (ctx_tenant_context ctx) (ctx_connector_id ctx) (ctx_job_id ctx) None s1)"

definition handle_job_stop ::
  "string \<Rightarrow> string \<Rightarrow> string option \<Rightarrow> TenantContext \<Rightarrow> state \<Rightarrow> state" where
  "handle_job_stop jid cid bid tc s =
     (case bid of
        None \<Rightarrow> s
      | Some b \<Rightarrow>
          if b = [] then s
          else
            (case batch_invoke (CancelJob b) s of
               (Some cancelled, s1) \<Rightarrow> s1
             | (None, s1) \<Rightarrow> mark_failed tc cid jid (Some b) s1))"

datatype handler_error =
  BadRequestError
| TypeError
| PydanticValidationError
| BotoClientError
| JobsDao job_dao_error
| ConnectorsDao connector_dao_error

definition truthy :: "string option \<Rightarrow> bool" where
  "truthy v = (case v of None \<Rightarrow> False | Some x \<Rightarrow> x \<noteq> [])"

definition record_handler ::
  "lambda_env \<Rightarrow> new_image option \<Rightarrow> state \<Rightarrow> (handler_error + unit) \<times> state" where
  "record_handler cfg img_opt s =
     (case img_opt of
        None \<Rightarrow> (Inr (), s)
      | Some img \<Rightarrow>
          if \<not> (truthy (ni_job_id img) \<and> truthy (ni_connector_id img)
                \<and> truthy (ni_custom_connector_arn_prefix img) \<and> truthy (ni_status img))
          then (Inr (), s)
          else
            (let jid = the (ni_job_id img); cid = the (ni_connector_id img);
                 prefix = the (ni_custom_connector_arn_prefix img);
                 st = the (ni_status img);
                 environment = (case ni_environment img of None \<Rightarrow> [] | Some e \<Rightarrow> e)
             in case from_arn_prefix prefix of
                  None \<Rightarrow> (Inl BadRequestError, s)
                | Some tc \<Rightarrow>
                    if st = status_value STARTED
                    then (Inr (), handle_job_start cfg
                                    \<lparr>ctx_job_id = jid, ctx_connector_id = cid,
                                     ctx_custom_connector_arn_prefix = prefix,
                                     ctx_environment = environment,
                                     ctx_tenant_context = tc\<rparr> s)
                    else if st = status_value STOPPING
                    then (Inr (), handle_job_stop jid cid (ni_batch_job_id img) tc s)
                    else (Inr (), s)))"

section \<open>External completion handler: \<^verbatim>\<open>job_status_handler.py\<close>\<close>

record event_detail =
  jobName :: "string option"
  ev_status :: "string option"
  container_environment :: "(string \<times> string) list"

text \<open>\<^verbatim>\<open>{item["name"]: item["value"] for item in container_env}.get(k)\<close>: the last entry of a
  name wins.\<close>

definition env_get :: "(string \<times> string) list \<Rightarrow> string \<Rightarrow> string option" where
  "env_get container_env k = map_of (rev container_env) k"

text \<open>Lines 66 to 76 of the handler: the job status a backend outcome is mapped to, given
  the status read from the stored job (or \<open>None\<close> when the job is not stored).\<close>

definition map_batch_status :: "string \<Rightarrow> JobStatus option \<Rightarrow> JobStatus option" where
  "map_batch_status batch_job_status current_status =
     (if batch_job_status = ''SUCCEEDED'' then Some SUCCEEDED
      else if batch_job_status = ''FAILED''
      then (if current_status = Some STOPPING then Some STOPPED else Some FAILED)
      else None)"

definition process_batch_event :: "event_detail \<Rightarrow> state \<Rightarrow> (handler_error + unit) \<times> state" where
  "process_batch_event ev s =
     (if \<not> truthy (jobName ev) \<or> ev_status ev \<notin> {Some ''SUCCEEDED'', Some ''FAILED''}
      then (Inr (), s)
      else
        (let jid = the (jobName ev);
             batch_job_status = the (ev_status ev);
             cid_opt = env_get (container_environment ev)
                         ''CUSTOM_CONNECTOR_FRAMEWORK_CUSTOM_CONNECTOR_ID'';
             prefix_opt = env_get (container_environment ev)
                            ''CUSTOM_CONNECTOR_FRAMEWORK_CUSTOM_CONNECTOR_ARN_PREFIX''
         in case prefix_opt of
              None \<Rightarrow> (Inl TypeError, s)
            | Some connector_arn_prefix \<Rightarrow>
                (case from_arn_prefix connector_arn_prefix of
                   None \<Rightarrow> (Inl BadRequestError, s)
                 | Some tc \<Rightarrow>
                     (case ddb_call s of
                        (True, s1) \<Rightarrow> (Inl BotoClientError, s1)
                      | (False, s1) \<Rightarrow>
                          (let job_item = jobs_table (fst s1) (connector_arn_prefix, jid);
                               current_status = map_option j_status job_item
                           in case map_batch_status batch_job_status current_status of
                                None \<Rightarrow> (Inr (), s1)
                              | Some job_status \<Rightarrow>
                                  (case cid_opt of
                                     None \<Rightarrow> (Inl PydanticValidationError, s1)
                                   | Some cid \<Rightarrow>
                                       (case update_job_status
                                               \<lparr>tenant_context = tc, connector_id = cid,
                                                job_id = jid, status = job_status,
                                                batch_job_id = Some jid\<rparr> s1 of
                                          (Inl e, s2) \<Rightarrow> (Inl (JobsDao e), s2)
                                        | (Inr done, s2) \<Rightarrow>
                                            (case update_connector_status tc cid AVAILABLE s2 of
                                               (Inl e, s3) \<Rightarrow> (Inl (ConnectorsDao e), s3)
                                             | (Inr flipped, s3) \<Rightarrow> (Inr (), s3)))))))))"

section \<open>Builder kit: documents and their checksum\<close>

datatype MembershipType = INDEX | DATASOURCE

datatype AccessType = ALLOW | DENY

datatype MemberRelation = AND | OR

record PrincipalUser =
  pu_access :: AccessType
  pu_id :: "string option"
  pu_membership_type :: "MembershipType option"

record PrincipalGroup =
  pg_access :: AccessType
  pg_name :: "string option"
  pg_membership_type :: "MembershipType option"

record Principal =
  p_user :: "PrincipalUser option"
  p_group :: "PrincipalGroup option"

record AccessControl =
  member_relation :: MemberRelation
  principals :: "Principal list"

record DocumentMetadata =
  title :: string
  source_uri :: "string option"
  last_updated_at :: string
  created_at :: string
  attributes :: "(string \<times> string) list"
  access_control_list :: "AccessControl list"

text \<open>A document names a file of the local file system; \<^verbatim>\<open>id\<close> is written \<open>doc_id\<close>.\<close>

record Document =
  doc_id :: string
  file_path :: string
  metadata :: DocumentMetadata

text \<open>
  What the interface takes from its surroundings: the bytes of a file
  (\<^verbatim>\<open>open(path, "rb").read()\<close>; \<^verbatim>\<open>DocumentFile\<close> has checked that the file exists), the
  content type inferred for a path (\<open>None\<close> when \<^verbatim>\<open>infer_content_type\<close> raises
  UnsupportedDocumentError), pathlib's \<^verbatim>\<open>suffix\<close>, the configured bucket (\<open>None\<close> when
  the S3 client or the bucket is missing), whether \<^verbatim>\<open>put_object\<close> succeeds for a key, and
  the two library functions \<^verbatim>\<open>hashlib.sha256(...).hexdigest()\<close> and
  \<^verbatim>\<open>json.dumps(..., sort_keys=True)\<close>.
\<close>

datatype json = JString string | JArray "json list" | JObject "(string \<times> json) list"

record surroundings =
  read_file :: "string \<Rightarrow> string"
  infer_content_type :: "string \<Rightarrow> string option"
  path_suffix :: "string \<Rightarrow> string"
  s3_bucket :: "string option"
  s3_put_object :: "string \<Rightarrow> bool"
  sha256_hexdigest :: "string \<Rightarrow> string"
  json_dumps_sorted :: "json \<Rightarrow> string"

definition get_size :: "surroundings \<Rightarrow> Document \<Rightarrow> nat" where
  "get_size env doc = length (read_file env (file_path doc))"

text \<open>\<^verbatim>\<open>exclude_none=True\<close>: a field whose value is \<^verbatim>\<open>None\<close> is left out of the dump.\<close>

definition exclude_none :: "(string \<times> json option) list \<Rightarrow> (string \<times> json) list" where
  "exclude_none kvs = List.map_filter (\<lambda>(k, v). map_option (Pair k) v) kvs"

fun access_value :: "AccessType \<Rightarrow> string" where
  "access_value ALLOW = ''ALLOW''"
| "access_value DENY = ''DENY''"

fun membership_value :: "MembershipType \<Rightarrow> string" where
  "membership_value INDEX = ''INDEX''"
| "membership_value DATASOURCE = ''DATASOURCE''"

fun relation_value :: "MemberRelation \<Rightarrow> string" where
  "relation_value AND = ''AND''"
| "relation_value OR = ''OR''"

definition dump_user :: "PrincipalUser \<Rightarrow> json" where
  "dump_user u =
     JObject (exclude_none
       [(''access'', Some (JString (access_value (pu_access u)))),
        (''id'', map_option JString (pu_id u)),
        (''membership_type'', map_option (\<lambda>m. JString (membership_value m)) (pu_membership_type u))])"

definition dump_group :: "PrincipalGroup \<Rightarrow> json" where
  "dump_group g =
     JObject (exclude_none
       [(''access'', Some (JString (access_value (pg_access g)))),
        (''name'', map_option JString (pg_name g)),
        (''membership_type'', map_option (\<lambda>m. JString (membership_value m)) (pg_membership_type g))])"

definition dump_principal :: "Principal \<Rightarrow> json" where
  "dump_principal p =
     JObject (exclude_none
       [(''user'', map_option dump_user (p_user p)),
        (''group'', map_option dump_group (p_group p))])"

definition dump_access_control :: "AccessControl \<Rightarrow> json" where
  "dump_access_control a =
     JObject (exclude_none
       [(''member_relation'', Some (JString (relation_value (member_relation a)))),
        (''principals'', Some (JArray (map dump_principal (principals a))))])"

definition metadata_fields :: "DocumentMetadata \<Rightarrow> (string \<times> json option) list" where
  "metadata_fields m =
     [(''title'', Some (JString (title m))),
      (''source_uri'', map_option JString (source_uri m)),
      (''last_updated_at'', Some (JString (last_updated_at m))),
      (''created_at'', Some (JString (created_at m))),
      (''attributes'', Some (JObject (map (\<lambda>(k, v). (k, JString v)) (attributes m)))),
      (''access_control_list'', Some (JArray (map dump_access_control (access_control_list m))))]"

text \<open>\<^verbatim>\<open>json.loads(metadata.model_dump_json(exclude=..., exclude_none=True))\<close>.\<close>

definition model_dump_json :: "string list \<Rightarrow> DocumentMetadata \<Rightarrow> json" where
  "model_dump_json exclude m =
     JObject (exclude_none (filter (\<lambda>(k, v). k \<notin> set exclude) (metadata_fields m)))"

definition get_checksum :: "surroundings \<Rightarrow> Document \<Rightarrow> string" where
  "get_checksum env doc =
     (let metadata_text =
            json_dumps_sorted env
              (model_dump_json [''last_updated_at'', ''created_at''] (metadata doc));
          data = doc_id doc @ ''+'' @ metadata_text;
          data2 = data @ ''+'' @ sha256_hexdigest env (read_file env (file_path doc))
      in sha256_hexdigest env data2)"

section \<open>Builder kit: choosing the documents to sync\<close>

record CCFDocument =
  document_id :: string
  checksum :: string
  ccf_created_at :: string
  ccf_updated_at :: string

type_synonym ledger = "string \<rightharpoonup> CCFDocument"

text \<open>A dict comprehension \<^verbatim>\<open>{k: v for ...}\<close>: a later pair of the same key replaces the
  earlier one.\<close>

definition dict_of :: "(string \<times> 'v) list \<Rightarrow> (string \<rightharpoonup> 'v)" where
  "dict_of kvs = map_of (rev kvs)"

definition current_checksums :: "surroundings \<Rightarrow> Document list \<Rightarrow> (string \<rightharpoonup> string)" where
  "current_checksums env current_docs =
     dict_of (map (\<lambda>doc. (doc_id doc, get_checksum env doc)) current_docs)"

text \<open>Lines 130 to 139 of \<^verbatim>\<open>sync\<close>. \<^verbatim>\<open>current_checksums[doc.id]\<close> is always present there,
  since the dictionary was built from the same documents.\<close>

definition docs_to_sync :: "surroundings \<Rightarrow> ledger \<Rightarrow> Document list \<Rightarrow> Document list" where
  "docs_to_sync env ccf_docs current_docs =
     filter (\<lambda>doc. case ccf_docs (doc_id doc) of
                      None \<Rightarrow> True
                    | Some entry \<Rightarrow>
                        Some (checksum entry) \<noteq> current_checksums env current_docs (doc_id doc))
       current_docs"

text \<open>
  The ledger after \<^verbatim>\<open>ccf_client.batch_put_documents(checksums_to_update)\<close> has succeeded:
  the documents DAO writes one item per key of the dictionary, stamped with its clock.
\<close>

definition ledger_put :: "string \<Rightarrow> (string \<rightharpoonup> string) \<Rightarrow> ledger \<Rightarrow> ledger" where
  "ledger_put now_iso checksums_to_update ccf_docs =
     (\<lambda>k. case checksums_to_update k of
             None \<Rightarrow> ccf_docs k
           | Some c \<Rightarrow> Some \<lparr>document_id = k, checksum = c, ccf_created_at = now_iso,
                             ccf_updated_at = now_iso\<rparr>)"

text \<open>
  The ledger after \<^verbatim>\<open>ccf_client.batch_delete_documents(documents_to_delete)\<close> has
  succeeded: the documents DAO deletes the item of every listed id.
\<close>

definition ledger_delete :: "string list \<Rightarrow> ledger \<Rightarrow> ledger" where
  "ledger_delete document_ids ccf_docs =
     (\<lambda>k. if k \<in> set document_ids then None else ccf_docs k)"

text \<open>The ledger after the upload phase of \<^verbatim>\<open>sync\<close> (lines 144 to 151) when every call
  it makes succeeds: nothing is written when no document was chosen.\<close>

definition ledger_after_put :: "surroundings \<Rightarrow> string \<Rightarrow> ledger \<Rightarrow> Document list \<Rightarrow> ledger" where
  "ledger_after_put env now_iso ccf_docs current_docs =
     (let chosen = docs_to_sync env ccf_docs current_docs
      in if chosen = [] then ccf_docs
         else ledger_put now_iso (current_checksums env chosen) ccf_docs)"

text \<open>The ledger a run of \<^verbatim>\<open>sync\<close> leaves when every call it makes succeeds: the upload
  phase, then the delete phase (lines 153 to 158), which removes the ids the producer
  listed for deletion, also an id that was uploaded a moment before.\<close>

definition ledger_after_sync ::
  "surroundings \<Rightarrow> string \<Rightarrow> ledger \<Rightarrow> Document list \<Rightarrow> string list \<Rightarrow> ledger" where
  "ledger_after_sync env now_iso ccf_docs current_docs documents_to_delete =
     (let after_put = ledger_after_put env now_iso ccf_docs current_docs
      in if documents_to_delete = [] then after_put
         else ledger_delete documents_to_delete after_put)"

section \<open>Builder kit: batched upload to the index\<close>

definition PUT_MAX_DOCS :: nat where
  "PUT_MAX_DOCS = 10"

definition PUT_MAX_TOTAL_SIZE :: nat where
  "PUT_MAX_TOTAL_SIZE = 10 * 1024 * 1024"

definition PUT_MAX_SINGLE_SIZE :: nat where
  "PUT_MAX_SINGLE_SIZE = 50 * 1024 * 1024"

datatype DocumentContent = Blob string | S3 string string

record QBusinessDocument =
  q_id :: string
  q_title :: string
  q_contentType :: string
  q_content :: DocumentContent
  q_attributes :: "(string \<times> string option) list"
  q_accessConfiguration :: "(AccessControl list \<times> MemberRelation) option"

datatype upload_error = UnsupportedDocumentError | ValueError

definition handle_large_document :: "surroundings \<Rightarrow> Document \<Rightarrow> (string \<times> string) option" where
  "handle_large_document env doc =
     (case s3_bucket env of
        None \<Rightarrow> None
      | Some bucket \<Rightarrow>
          if bucket = [] then None
          else
            (let key = ''qbusiness-docs/'' @ doc_id doc @ path_suffix env (file_path doc)
             in if s3_put_object env key then Some (bucket, key) else None))"

text \<open>The second half of \<^verbatim>\<open>_prepare_document_for_upload\<close>: the standard attributes (the
  two timestamps only when they are not empty), the custom attributes, and the access
  configuration when the document has access controls.\<close>

definition build_document :: "Document \<Rightarrow> string \<Rightarrow> DocumentContent \<Rightarrow> QBusinessDocument" where
  "build_document doc content_type content =
     (let m = metadata doc;
          attrs =
            [(''_source_uri'', source_uri m)]
            @ (if last_updated_at m \<noteq> []
               then [(''_last_updated_at'', Some (last_updated_at m))] else [])
            @ (if created_at m \<noteq> []
               then [(''_created_at'', Some (created_at m))] else [])
            @ map (\<lambda>(k, v). (k, Some v)) (attributes m);
          access_config =
            (if access_control_list m \<noteq> []
             then Some (access_control_list m, AND) else None)
      in \<lparr>q_id = doc_id doc, q_title = title m, q_contentType = content_type,
          q_content = content, q_attributes = attrs,
          q_accessConfiguration = access_config\<rparr>)"

text \<open>
  \<^verbatim>\<open>_prepare_document_for_upload\<close>: \<open>Inr None\<close> is the \<^verbatim>\<open>return None\<close> of a skipped document,
  \<open>Inl\<close> an exception the method lets through. \<^verbatim>\<open>DocumentContent\<close> raises ValueError when
  neither a non-empty blob nor an S3 location is given, which an empty file meets.
\<close>

definition prepare_document_for_upload ::
  "surroundings \<Rightarrow> Document \<Rightarrow> upload_error + QBusinessDocument option" where
  "prepare_document_for_upload env doc =
     (case infer_content_type env (file_path doc) of
        None \<Rightarrow> Inl UnsupportedDocumentError
      | Some content_type \<Rightarrow>
          (let file_size = get_size env doc in
           if file_size > PUT_MAX_SINGLE_SIZE then Inr None
           else if file_size > PUT_MAX_TOTAL_SIZE
           then (case handle_large_document env doc of
                   None \<Rightarrow> Inr None
                 | Some (bucket, key) \<Rightarrow>
                     Inr (Some (build_document doc content_type (S3 bucket key))))
           else if read_file env (file_path doc) = [] then Inl ValueError
           else Inr (Some (build_document doc content_type
                             (Blob (read_file env (file_path doc)))))))"

text \<open>
  The loop of \<^verbatim>\<open>_batch_put_documents\<close>, with the batch being filled, the size accumulator
  and the batches handed to \<^verbatim>\<open>_qbusiness_batch_put_documents\<close> so far. The result holds
  the exception that ended the loop, if any, and every batch that was dispatched.
\<close>

fun batch_loop ::
  "surroundings \<Rightarrow> Document list \<Rightarrow> QBusinessDocument list \<Rightarrow> nat
     \<Rightarrow> QBusinessDocument list list \<Rightarrow> upload_error option \<times> QBusinessDocument list list" where
  "batch_loop env [] batch size_accumulator sent =
     (None, if batch \<noteq> [] then sent @ [batch] else sent)"
| "batch_loop env (doc # documents) batch size_accumulator sent =
     (case prepare_document_for_upload env doc of
        Inl e \<Rightarrow> (Some e, sent)
      | Inr None \<Rightarrow> batch_loop env documents batch size_accumulator sent
      | Inr (Some prepared_doc) \<Rightarrow>
          (let file_size = get_size env doc;
               batch2 = batch @ [prepared_doc];
               size2 = size_accumulator + file_size
           in if length batch2 = PUT_MAX_DOCS \<or> size2 \<ge> PUT_MAX_TOTAL_SIZE
              then batch_loop env documents [] 0 (sent @ [batch2])
              else batch_loop env documents batch2 size2 sent))"

definition batch_put_documents ::
  "surroundings \<Rightarrow> Document list \<Rightarrow> upload_error option \<times> QBusinessDocument list list" where
  "batch_put_documents env documents = batch_loop env documents [] 0 []"

text \<open>The bytes a dispatched batch carries inline.\<close>

definition blob_size :: "QBusinessDocument \<Rightarrow> nat" where
  "blob_size q = (case q_content q of Blob b \<Rightarrow> length b | S3 bucket key \<Rightarrow> 0)"

definition batch_payload :: "QBusinessDocument list \<Rightarrow> nat" where
  "batch_payload batch = sum_list (map blob_size batch)"

section \<open>Notions used to state the properties\<close>

definition stored_version :: "world \<Rightarrow> ddb_key \<Rightarrow> int option" where
  "stored_version w key =
     (case connectors_table w key of None \<Rightarrow> None | Some item \<Rightarrow> c_version item)"

text \<open>
  A mutating operation of the connectors DAO makes two storage calls. With \<open>s1\<close> the
  state its read was served from, \<open>s2\<close> the state its write was served from and \<open>s'\<close> the
  state it left: the write found the version the read had seen, and left that plus one.
\<close>

definition version_bumped :: "state \<Rightarrow> state \<Rightarrow> state \<Rightarrow> ddb_key \<Rightarrow> bool" where
  "version_bumped s1 s2 s' key =
     (case connectors_table (fst s1) key of
        None \<Rightarrow> False
      | Some item \<Rightarrow>
          stored_version (fst s2) key = Some (item_version item)
          \<and> stored_version (fst s') key = Some (item_version item + 1))"

text \<open>The version stored when the write is served differs from the one the read saw.\<close>

definition stale_at_write :: "state \<Rightarrow> state \<Rightarrow> ddb_key \<Rightarrow> bool" where
  "stale_at_write s1 s2 key =
     (case connectors_table (fst s1) key of
        None \<Rightarrow> False
      | Some item \<Rightarrow> stored_version (fst s2) key \<noteq> Some (item_version item))"

definition has_checkpoint :: "state \<Rightarrow> ddb_key \<Rightarrow> bool" where
  "has_checkpoint s1 key =
     (case connectors_table (fst s1) key of
        None \<Rightarrow> False
      | Some item \<Rightarrow> c_checkpoint item \<noteq> None)"

text \<open>A schedule is calm when no other invocation writes: its calls are served or fail.\<close>

fun is_race :: "env_action \<Rightarrow> bool" where
  "is_race (Race f) = True"
| "is_race a = False"

definition calm :: "env_action list \<Rightarrow> bool" where
  "calm es = list_all (\<lambda>a. \<not> is_race a) es"

section \<open>Sample data\<close>

text \<open>Two instants as \<^verbatim>\<open>isoformat()\<close> writes them.\<close>

definition iso_t0 :: string where
  "iso_t0 = ''2024-01-01T00:00:00+00:00''"

definition iso_t1 :: string where
  "iso_t1 = ''2024-01-02T00:00:00+00:00''"

definition tenant0 :: TenantContext where
  "tenant0 = \<lparr>account_id = ''123456789012'', region = ''us-west-2''\<rparr>"

definition props0 :: ContainerProperties where
  "props0 =
     \<lparr>execution_role_arn = ''exec-role'', image_uri = ''image'', job_role_arn = ''job-role'',
      resource_requirements = \<lparr>cpu = ''1'', memory = 2048\<rparr>, timeout = 3600\<rparr>"

definition connector0 :: connector_item where
  "connector0 =
     \<lparr>c_connector_id = ''cc-1'', c_arn = get_connector_arn tenant0 ''cc-1'',
      c_name = ''crawler'', c_description = None,
      c_container_properties = model_dump props0, c_status = AVAILABLE,
      c_created_at = iso_t0, c_updated_at = iso_t0, c_version = Some 1,
      c_checkpoint =
        Some \<lparr>checkpoint_data = ''page-3'', cp_created_at = iso_t0, cp_updated_at = iso_t0\<rparr>\<rparr>"

definition service0 :: "batch_call \<Rightarrow> string option" where
  "service0 c =
     (case c of
        RegisterJobDefinition n p e \<Rightarrow> Some (''jobdef/'' @ n)
      | SubmitJob n d t \<Rightarrow> Some (''batch-'' @ n)
      | CancelJob b \<Rightarrow> Some [])"

definition world0 :: world where
  "world0 =
     \<lparr>connectors_table = [connector_key tenant0 ''cc-1'' \<mapsto> connector0],
      jobs_table = Map.empty, clock_iso = iso_t1, clock_epoch = 1704153600,
      uuid_hex = ''0123456789abcdef0123456789abcdef'',
      batch_service = service0, batch_calls = []\<rparr>"

text \<open>A request that renames the sample connector.\<close>

definition rename0 :: UpdateConnectorRequest where
  "rename0 =
     \<lparr>uc_tenant_context = tenant0, uc_connector_id = ''cc-1'', uc_name = Some ''crawler-2'',
      uc_description = None, uc_container_properties = None\<rparr>"

text \<open>Another invocation that rewrites the connector, as a concurrent update would.\<close>

definition concurrent_writer :: "world \<Rightarrow> world" where
  "concurrent_writer w =
     w\<lparr>connectors_table := (connectors_table w)
          (connector_key tenant0 ''cc-1'' \<mapsto> connector0\<lparr>c_version := Some 2\<rparr>)\<rparr>"

text \<open>A connector held by a job, and the world in which that job has a given status.\<close>

definition connector_in_use :: connector_item where
  "connector_in_use = connector0\<lparr>c_status := IN_USE, c_version := Some 2\<rparr>"

definition job0 :: job_item where
  "job0 =
     \<lparr>j_job_id = ''ccj-1'', j_connector_id = ''cc-1'', j_status = RUNNING, j_environment = [],
      j_created_at = iso_t0, j_updated_at = iso_t0, j_batch_job_id = Some ''batch-1'',
      j_ttl = None\<rparr>"

definition world1 :: "JobStatus \<Rightarrow> world" where
  "world1 st =
     world0\<lparr>connectors_table := [connector_key tenant0 ''cc-1'' \<mapsto> connector_in_use],
            jobs_table := [job_key tenant0 ''ccj-1'' \<mapsto> job0\<lparr>j_status := st\<rparr>]\<rparr>"


definition request0 :: "JobStatus \<Rightarrow> string option \<Rightarrow> UpdateJobStatusRequest" where
  "request0 st bid =
     \<lparr>tenant_context = tenant0, connector_id = ''cc-1'', job_id = ''ccj-1'', status = st,
      batch_job_id = bid\<rparr>"







text \<open>A concurrent deletion of every connector, and a concurrent write of the sample
  connector that leaves another version.\<close>

definition connector_deleter :: "world \<Rightarrow> world" where
  "connector_deleter w = w\<lparr>connectors_table := Map.empty\<rparr>"


definition connector_toucher :: "world \<Rightarrow> world" where
  "connector_toucher w =
     w\<lparr>connectors_table := (connectors_table w)
          (connector_key tenant0 ''cc-1'' \<mapsto> connector_in_use\<lparr>c_version := Some 9\<rparr>)\<rparr>"

text \<open>A change-feed record of the sample job carrying STARTED, and a completion
  notification for it.\<close>

definition cfg0 :: lambda_env where
  "cfg0 = \<lparr>AWS_BATCH_JOB_QUEUE = ''queue'', CUSTOM_CONNECTOR_API_ENDPOINT = ''https://api''\<rparr>"

definition image0 :: new_image where
  "image0 =
     \<lparr>ni_job_id = Some ''ccj-1'', ni_connector_id = Some ''cc-1'',
      ni_custom_connector_arn_prefix = Some ''arn:aws:ccf:us-west-2:123456789012'',
      ni_status = Some ''STARTED'', ni_batch_job_id = None, ni_environment = Some []\<rparr>"

definition event0 :: "string \<Rightarrow> event_detail" where
  "event0 outcome =
     \<lparr>jobName = Some ''ccj-1'', ev_status = Some outcome,
      container_environment =
        [(''CUSTOM_CONNECTOR_FRAMEWORK_CUSTOM_CONNECTOR_ID'', ''cc-1''),
         (''CUSTOM_CONNECTOR_FRAMEWORK_CUSTOM_CONNECTOR_ARN_PREFIX'',
          ''arn:aws:ccf:us-west-2:123456789012'')]\<rparr>"

text \<open>A state reached by an invocation that ran alone: the service, the log of calls
  to it and the exhausted schedule are those of the world it started from.\<close>

definition same_service :: "world \<Rightarrow> state \<Rightarrow> bool" where
  "same_service w s' =
     (batch_calls (fst s') = batch_calls w \<and> batch_service (fst s') = batch_service w
      \<and> snd s' = [])"

text \<open>Two sample documents, and a copy of the first whose timestamp alone changed.\<close>

definition meta0 :: DocumentMetadata where
  "meta0 =
     \<lparr>title = ''Guide'', source_uri = Some ''https://example.org/guide'',
      last_updated_at = ''2024-05-01T00:00:00+00:00'', created_at = ''2023-01-01T00:00:00+00:00'',
      attributes = [(''lang'', ''en'')], access_control_list = []\<rparr>"

definition doc_a :: Document where
  "doc_a = \<lparr>doc_id = ''a'', file_path = ''/data/a.txt'', metadata = meta0\<rparr>"

definition doc_a_touched :: Document where
  "doc_a_touched =
     doc_a\<lparr>metadata := meta0\<lparr>last_updated_at := ''2024-06-01T00:00:00+00:00''\<rparr>\<rparr>"

definition doc_b :: Document where
  "doc_b = \<lparr>doc_id = ''b'', file_path = ''/data/b.txt'', metadata = meta0\<rparr>"

text \<open>Surroundings in which both sample files hold six mebibytes and no bucket is
  configured; the two library functions are stand-ins, which no property below depends on.\<close>

definition env0 :: surroundings where
  "env0 =
     \<lparr>read_file = (\<lambda>p. replicate (6 * 1024 * 1024) (CHR ''x'')),
      infer_content_type = (\<lambda>p. Some ''PLAIN_TEXT''),
      path_suffix = (\<lambda>p. ''.txt''),
      s3_bucket = None,
      s3_put_object = (\<lambda>k. False),
      sha256_hexdigest = (\<lambda>bytes. take 8 bytes),
      json_dumps_sorted = (\<lambda>j. case j of JObject kvs \<Rightarrow> concat (map fst kvs) | other \<Rightarrow> [])\<rparr>"

definition ledger0 :: ledger where
  "ledger0 =
     [''a'' \<mapsto> \<lparr>document_id = ''a'', checksum = get_checksum env0 doc_a,
                  ccf_created_at = iso_t0, ccf_updated_at = iso_t0\<rparr>]"

section \<open>Optimistic locking on the connector version\<close>

lemma write_if_version_Inr:
  assumes "write_if_version key v upd s = (Inr u, s')"
  shows "\<exists>w es stored. ddb_call s = (False, (w, es)) \<and> connectors_table w key = Some stored
           \<and> c_version stored = Some v
           \<and> s' = (w\<lparr>connectors_table := (connectors_table w)(key \<mapsto> upd stored)\<rparr>, es)"
  using assms unfolding write_if_version_def
  by (auto split: prod.splits bool.splits option.splits if_splits)

lemma write_if_version_stale:
  assumes "ddb_call s = (False, s2)" and "stored_version (fst s2) key \<noteq> Some v"
  shows "write_if_version key v upd s = (Inl ConnectorDaoConflictError, s2)"
  using assms unfolding write_if_version_def stored_version_def
  by (cases s2) (auto split: option.splits)

lemma update_connector_status_bumps:
  assumes "update_connector_status tc cid st s = (Inr u, s')"
    and "ddb_call s = (f1, s1)" and "ddb_call s1 = (f2, s2)"
  shows "version_bumped s1 s2 s' (connector_key tc cid)"
  using assms unfolding update_connector_status_def Let_def version_bumped_def
  by (auto split: bool.splits option.splits simp: stored_version_def
           dest!: write_if_version_Inr)

lemma put_checkpoint_bumps:
  assumes "put_checkpoint tc cid d s = (Inr u, s')"
    and "ddb_call s = (f1, s1)" and "ddb_call s1 = (f2, s2)"
  shows "version_bumped s1 s2 s' (connector_key tc cid)"
  using assms unfolding put_checkpoint_def Let_def version_bumped_def
  by (auto split: bool.splits option.splits simp: stored_version_def
           dest!: write_if_version_Inr)

lemma delete_checkpoint_bumps:
  assumes "delete_checkpoint tc cid s = (Inr u, s')"
    and "ddb_call s = (f1, s1)" and "ddb_call s1 = (f2, s2)"
  shows "version_bumped s1 s2 s' (connector_key tc cid)"
  using assms unfolding delete_checkpoint_def Let_def version_bumped_def
  by (auto split: bool.splits option.splits if_splits simp: stored_version_def
           dest!: write_if_version_Inr)

lemma update_connector_bumps:
  assumes "update_connector request s = (Inr resp, s')"
    and "ddb_call s = (f1, s1)" and "ddb_call s1 = (f2, s2)"
  shows "version_bumped s1 s2 s'
           (connector_key (uc_tenant_context request) (uc_connector_id request))"
  using assms unfolding update_connector_def Let_def version_bumped_def
  by (auto split: bool.splits option.splits prod.splits sum.splits
           simp: stored_version_def dest!: write_if_version_Inr)

lemma update_connector_status_stale:
  assumes "ddb_call s = (False, s1)" and "ddb_call s1 = (False, s2)"
    and "stale_at_write s1 s2 (connector_key tc cid)"
  shows "update_connector_status tc cid st s = (Inl ConnectorDaoConflictError, s2)"
  using assms unfolding update_connector_status_def Let_def stale_at_write_def
  by (auto simp add: write_if_version_stale split: option.splits)

lemma put_checkpoint_stale:
  assumes "ddb_call s = (False, s1)" and "ddb_call s1 = (False, s2)"
    and "stale_at_write s1 s2 (connector_key tc cid)"
  shows "put_checkpoint tc cid d s = (Inl ConnectorDaoConflictError, s2)"
  using assms unfolding put_checkpoint_def Let_def stale_at_write_def
  by (auto simp add: write_if_version_stale split: option.splits)

lemma delete_checkpoint_stale:
  assumes "ddb_call s = (False, s1)" and "ddb_call s1 = (False, s2)"
    and "stale_at_write s1 s2 (connector_key tc cid)"
    and "has_checkpoint s1 (connector_key tc cid)"
  shows "delete_checkpoint tc cid s = (Inl ConnectorDaoConflictError, s2)"
  using assms unfolding delete_checkpoint_def Let_def stale_at_write_def has_checkpoint_def
  by (auto simp add: write_if_version_stale split: option.splits)

lemma update_connector_stale:
  assumes "ddb_call s = (False, s1)" and "ddb_call s1 = (False, s2)"
    and "stale_at_write s1 s2
           (connector_key (uc_tenant_context request) (uc_connector_id request))"
  shows "update_connector request s = (Inl ConnectorDaoConflictError, s2)"
  using assms unfolding update_connector_def Let_def stale_at_write_def
  by (auto simp add: write_if_version_stale split: option.splits)

lemma update_connector_status_quiet:
  assumes "connectors_table w (connector_key tc cid) = Some c" and "c_version c = Some v"
  shows "update_connector_status tc cid st (w, []) =
           (Inr (),
            (w\<lparr>connectors_table := (connectors_table w)
                 (connector_key tc cid \<mapsto>
                    c\<lparr>c_status := st, c_version := Some (v + 1),
                      c_updated_at := clock_iso w\<rparr>)\<rparr>, []))"
  using assms
  by (simp add: update_connector_status_def write_if_version_def item_version_def Let_def)

lemma put_checkpoint_quiet:
  assumes "connectors_table w (connector_key tc cid) = Some c" and "c_version c = Some v"
  shows "put_checkpoint tc cid d (w, []) =
           (Inr (),
            (w\<lparr>connectors_table := (connectors_table w)
                 (connector_key tc cid \<mapsto>
                    c\<lparr>c_checkpoint := Some \<lparr>checkpoint_data = d, cp_created_at = clock_iso w,
                                             cp_updated_at = clock_iso w\<rparr>,
                      c_version := Some (v + 1), c_updated_at := clock_iso w\<rparr>)\<rparr>, []))"
  using assms
  by (simp add: put_checkpoint_def write_if_version_def item_version_def Let_def)

lemma delete_checkpoint_quiet:
  assumes "connectors_table w (connector_key tc cid) = Some c" and "c_version c = Some v"
    and "c_checkpoint c \<noteq> None"
  shows "delete_checkpoint tc cid (w, []) =
           (Inr (),
            (w\<lparr>connectors_table := (connectors_table w)
                 (connector_key tc cid \<mapsto>
                    c\<lparr>c_checkpoint := None, c_version := Some (v + 1),
                      c_updated_at := clock_iso w\<rparr>)\<rparr>, []))"
  using assms
  by (simp add: delete_checkpoint_def write_if_version_def item_version_def Let_def)

lemma update_connector_quiet:
  assumes "connectors_table w (connector_key (uc_tenant_context request) (uc_connector_id request))
             = Some c"
    and "c_version c = Some v"
  shows "map_sum id ur_version (fst (update_connector request (w, []))) = Inr (v + 1)
       \<and> stored_version (fst (snd (update_connector request (w, []))))
           (connector_key (uc_tenant_context request) (uc_connector_id request)) = Some (v + 1)"
  using assms
  by (simp add: update_connector_def write_if_version_def item_version_def Let_def
        stored_version_def split: option.splits)

text \<open>
  Claim C2. Let \<open>s1\<close> be the state the first storage call of an operation is served from
  and \<open>s2\<close> the state the second one is served from. Whenever \<^verbatim>\<open>update_connector_status\<close>,
  \<^verbatim>\<open>update_connector\<close>, \<^verbatim>\<open>put_checkpoint\<close> or \<^verbatim>\<open>delete_checkpoint\<close> succeeds, the version
  stored at the write equals the version read and the version left is that plus one. When
  both calls are served and the version stored at the write differs from the version read,
  each of the four fails with the conflict error of the connectors DAO and writes nothing
  (\<^verbatim>\<open>delete_checkpoint\<close> when the item read had a checkpoint, since it reports a missing
  checkpoint before it writes). And each of the four does succeed when it runs alone on a
  stored connector that has a version \<open>v\<close>: it leaves version \<open>v + 1\<close>, which
  \<^verbatim>\<open>update_connector\<close> also returns.
\<close>

theorem version_optimistic_lock:
  assumes "ddb_call s = (f1, s1)" and "ddb_call s1 = (f2, s2)"
  shows "(update_connector_status tc cid st s = (Inr u, s') \<longrightarrow>
            version_bumped s1 s2 s' (connector_key tc cid))
       \<and> (update_connector request s = (Inr resp, s') \<longrightarrow>
            version_bumped s1 s2 s'
              (connector_key (uc_tenant_context request) (uc_connector_id request)))
       \<and> (put_checkpoint tc cid d s = (Inr u, s') \<longrightarrow>
            version_bumped s1 s2 s' (connector_key tc cid))
       \<and> (delete_checkpoint tc cid s = (Inr u, s') \<longrightarrow>
            version_bumped s1 s2 s' (connector_key tc cid))
       \<and> (\<not> f1 \<and> \<not> f2 \<and> stale_at_write s1 s2 (connector_key tc cid) \<longrightarrow>
            update_connector_status tc cid st s = (Inl ConnectorDaoConflictError, s2)
            \<and> put_checkpoint tc cid d s = (Inl ConnectorDaoConflictError, s2)
            \<and> (has_checkpoint s1 (connector_key tc cid) \<longrightarrow>
                 delete_checkpoint tc cid s = (Inl ConnectorDaoConflictError, s2)))
       \<and> (\<not> f1 \<and> \<not> f2
            \<and> stale_at_write s1 s2
                 (connector_key (uc_tenant_context request) (uc_connector_id request)) \<longrightarrow>
            update_connector request s = (Inl ConnectorDaoConflictError, s2))
       \<and> (connectors_table w (connector_key tc cid) = Some c \<and> c_version c = Some v \<longrightarrow>
            fst (update_connector_status tc cid st (w, [])) = Inr ()
            \<and> stored_version (fst (snd (update_connector_status tc cid st (w, []))))
                 (connector_key tc cid) = Some (v + 1)
            \<and> fst (put_checkpoint tc cid d (w, [])) = Inr ()
            \<and> stored_version (fst (snd (put_checkpoint tc cid d (w, []))))
                 (connector_key tc cid) = Some (v + 1)
            \<and> (c_checkpoint c \<noteq> None \<longrightarrow>
                 fst (delete_checkpoint tc cid (w, [])) = Inr ()
                 \<and> stored_version (fst (snd (delete_checkpoint tc cid (w, []))))
                      (connector_key tc cid) = Some (v + 1)))
       \<and> (connectors_table w
              (connector_key (uc_tenant_context request) (uc_connector_id request)) = Some c
            \<and> c_version c = Some v \<longrightarrow>
            map_sum id ur_version (fst (update_connector request (w, []))) = Inr (v + 1)
            \<and> stored_version (fst (snd (update_connector request (w, []))))
                 (connector_key (uc_tenant_context request) (uc_connector_id request))
                = Some (v + 1))"
proof -
  have alone: "connectors_table w (connector_key tc cid) = Some c \<and> c_version c = Some v \<longrightarrow>
            fst (update_connector_status tc cid st (w, [])) = Inr ()
            \<and> stored_version (fst (snd (update_connector_status tc cid st (w, []))))
                 (connector_key tc cid) = Some (v + 1)
            \<and> fst (put_checkpoint tc cid d (w, [])) = Inr ()
            \<and> stored_version (fst (snd (put_checkpoint tc cid d (w, []))))
                 (connector_key tc cid) = Some (v + 1)
            \<and> (c_checkpoint c \<noteq> None \<longrightarrow>
                 fst (delete_checkpoint tc cid (w, [])) = Inr ()
                 \<and> stored_version (fst (snd (delete_checkpoint tc cid (w, []))))
                      (connector_key tc cid) = Some (v + 1))"
    by (auto simp: update_connector_status_quiet put_checkpoint_quiet delete_checkpoint_quiet
          stored_version_def)
  have alone_update: "connectors_table w
              (connector_key (uc_tenant_context request) (uc_connector_id request)) = Some c
            \<and> c_version c = Some v \<longrightarrow>
            map_sum id ur_version (fst (update_connector request (w, []))) = Inr (v + 1)
            \<and> stored_version (fst (snd (update_connector request (w, []))))
                 (connector_key (uc_tenant_context request) (uc_connector_id request))
                = Some (v + 1)"
    using update_connector_quiet by blast
  have locked: "(update_connector_status tc cid st s = (Inr u, s') \<longrightarrow>
            version_bumped s1 s2 s' (connector_key tc cid))
       \<and> (update_connector request s = (Inr resp, s') \<longrightarrow>
            version_bumped s1 s2 s'
              (connector_key (uc_tenant_context request) (uc_connector_id request)))
       \<and> (put_checkpoint tc cid d s = (Inr u, s') \<longrightarrow>
            version_bumped s1 s2 s' (connector_key tc cid))
       \<and> (delete_checkpoint tc cid s = (Inr u, s') \<longrightarrow>
            version_bumped s1 s2 s' (connector_key tc cid))
       \<and> (\<not> f1 \<and> \<not> f2 \<and> stale_at_write s1 s2 (connector_key tc cid) \<longrightarrow>
            update_connector_status tc cid st s = (Inl ConnectorDaoConflictError, s2)
            \<and> put_checkpoint tc cid d s = (Inl ConnectorDaoConflictError, s2)
            \<and> (has_checkpoint s1 (connector_key tc cid) \<longrightarrow>
                 delete_checkpoint tc cid s = (Inl ConnectorDaoConflictError, s2)))
       \<and> (\<not> f1 \<and> \<not> f2
            \<and> stale_at_write s1 s2
                 (connector_key (uc_tenant_context request) (uc_connector_id request)) \<longrightarrow>
            update_connector request s = (Inl ConnectorDaoConflictError, s2))"
    using assms
    by (auto intro: update_connector_status_bumps update_connector_bumps put_checkpoint_bumps
          delete_checkpoint_bumps update_connector_status_stale put_checkpoint_stale
          delete_checkpoint_stale update_connector_stale)
  from locked alone alone_update show ?thesis by blast
qed

lemmas sample_defs =
  tenant0_def props0_def connector0_def service0_def world0_def concurrent_writer_def
  connector_key_def job_key_def get_arn_prefix_def get_connector_arn_def rename0_def

lemmas connectors_dao_defs =
  update_connector_status_def put_checkpoint_def delete_checkpoint_def update_connector_def
  write_if_version_def get_connector_def item_version_def model_validate_def model_dump_def

text \<open>The four operations on the sample connector, whose version is 1: each succeeds alone
  and leaves version 2, and each answers with the conflict error when another invocation
  has written the connector between its read and its write.\<close>

theorem version_optimistic_lock_witness:
  "fst (update_connector_status tenant0 ''cc-1'' IN_USE (world0, [])) = Inr ()
   \<and> stored_version (fst (snd (update_connector_status tenant0 ''cc-1'' IN_USE (world0, []))))
        (connector_key tenant0 ''cc-1'') = Some 2
   \<and> map_sum id ur_version (fst (update_connector rename0 (world0, []))) = Inr 2
   \<and> stored_version (fst (snd (update_connector rename0 (world0, []))))
        (connector_key tenant0 ''cc-1'') = Some 2
   \<and> fst (put_checkpoint tenant0 ''cc-1'' ''page-4'' (world0, [])) = Inr ()
   \<and> stored_version (fst (snd (put_checkpoint tenant0 ''cc-1'' ''page-4'' (world0, []))))
        (connector_key tenant0 ''cc-1'') = Some 2
   \<and> fst (delete_checkpoint tenant0 ''cc-1'' (world0, [])) = Inr ()
   \<and> stored_version (fst (snd (delete_checkpoint tenant0 ''cc-1'' (world0, []))))
        (connector_key tenant0 ''cc-1'') = Some 2
   \<and> version_bumped (world0, []) (world0, [])
        (snd (update_connector_status tenant0 ''cc-1'' IN_USE (world0, [])))
        (connector_key tenant0 ''cc-1'')
   \<and> version_bumped (world0, []) (world0, []) (snd (update_connector rename0 (world0, [])))
        (connector_key tenant0 ''cc-1'')
   \<and> version_bumped (world0, []) (world0, [])
        (snd (put_checkpoint tenant0 ''cc-1'' ''page-4'' (world0, [])))
        (connector_key tenant0 ''cc-1'')
   \<and> version_bumped (world0, []) (world0, []) (snd (delete_checkpoint tenant0 ''cc-1'' (world0, [])))
        (connector_key tenant0 ''cc-1'')
   \<and> stale_at_write (world0, [Race concurrent_writer]) (concurrent_writer world0, [])
        (connector_key tenant0 ''cc-1'')
   \<and> update_connector_status tenant0 ''cc-1'' IN_USE (world0, [Quiet, Race concurrent_writer])
        = (Inl ConnectorDaoConflictError, (concurrent_writer world0, []))
   \<and> update_connector rename0 (world0, [Quiet, Race concurrent_writer])
        = (Inl ConnectorDaoConflictError, (concurrent_writer world0, []))
   \<and> put_checkpoint tenant0 ''cc-1'' ''page-4'' (world0, [Quiet, Race concurrent_writer])
        = (Inl ConnectorDaoConflictError, (concurrent_writer world0, []))
   \<and> delete_checkpoint tenant0 ''cc-1'' (world0, [Quiet, Race concurrent_writer])
        = (Inl ConnectorDaoConflictError, (concurrent_writer world0, []))"
proof -
  let ?s = "(world0, [])"
  let ?key = "connector_key tenant0 ''cc-1''"
  have quiet: "ddb_call ?s = (False, ?s)" by simp
  have tc: "uc_tenant_context rename0 = tenant0" "uc_connector_id rename0 = ''cc-1''"
    by (simp_all add: rename0_def)
  have stored: "connectors_table world0 ?key = Some connector0 \<and> c_version connector0 = Some 1"
    by (simp add: world0_def connector0_def)
  have stored_r: "connectors_table world0
                    (connector_key (uc_tenant_context rename0) (uc_connector_id rename0))
                  = Some connector0 \<and> c_version connector0 = Some 1"
    using stored by (simp add: tc)
  have cp0: "c_checkpoint connector0 \<noteq> None" by (simp add: connector0_def)
  note main = version_optimistic_lock
                [OF quiet quiet, where tc = tenant0 and cid = "''cc-1''" and st = IN_USE
                   and d = "''page-4''" and request = rename0 and w = world0
                   and c = connector0 and v = 1]
  from main stored stored_r cp0
  have alone:
    "fst (update_connector_status tenant0 ''cc-1'' IN_USE ?s) = Inr ()"
    "stored_version (fst (snd (update_connector_status tenant0 ''cc-1'' IN_USE ?s))) ?key = Some (1 + 1)"
    "map_sum id ur_version (fst (update_connector rename0 ?s)) = Inr (1 + 1)"
    "stored_version (fst (snd (update_connector rename0 ?s)))
       (connector_key (uc_tenant_context rename0) (uc_connector_id rename0)) = Some (1 + 1)"
    "fst (put_checkpoint tenant0 ''cc-1'' ''page-4'' ?s) = Inr ()"
    "stored_version (fst (snd (put_checkpoint tenant0 ''cc-1'' ''page-4'' ?s))) ?key = Some (1 + 1)"
    "fst (delete_checkpoint tenant0 ''cc-1'' ?s) = Inr ()"
    "stored_version (fst (snd (delete_checkpoint tenant0 ''cc-1'' ?s))) ?key = Some (1 + 1)"
    by blast+
  have ok1: "update_connector_status tenant0 ''cc-1'' IN_USE ?s
               = (Inr (), snd (update_connector_status tenant0 ''cc-1'' IN_USE ?s))"
    using alone(1) by (metis prod.collapse)
  have ok3: "put_checkpoint tenant0 ''cc-1'' ''page-4'' ?s
               = (Inr (), snd (put_checkpoint tenant0 ''cc-1'' ''page-4'' ?s))"
    using alone(5) by (metis prod.collapse)
  have ok4: "delete_checkpoint tenant0 ''cc-1'' ?s = (Inr (), snd (delete_checkpoint tenant0 ''cc-1'' ?s))"
    using alone(7) by (metis prod.collapse)
  from alone(3) obtain resp where "fst (update_connector rename0 ?s) = Inr resp"
    by (cases "fst (update_connector rename0 ?s)") auto
  then have ok2: "update_connector rename0 ?s = (Inr resp, snd (update_connector rename0 ?s))"
    by (metis prod.collapse)
  have b1: "version_bumped ?s ?s (snd (update_connector_status tenant0 ''cc-1'' IN_USE ?s)) ?key"
    using version_optimistic_lock [OF quiet quiet] ok1 by blast
  have b2: "version_bumped ?s ?s (snd (update_connector rename0 ?s)) ?key"
    using version_optimistic_lock [OF quiet quiet, where request = rename0] ok2 tc by metis
  have b3: "version_bumped ?s ?s (snd (put_checkpoint tenant0 ''cc-1'' ''page-4'' ?s)) ?key"
    using version_optimistic_lock [OF quiet quiet] ok3 by blast
  have b4: "version_bumped ?s ?s (snd (delete_checkpoint tenant0 ''cc-1'' ?s)) ?key"
    using version_optimistic_lock [OF quiet quiet] ok4 by blast
  let ?t = "(world0, [Quiet, Race concurrent_writer])"
  let ?t1 = "(world0, [Race concurrent_writer])"
  let ?t2 = "(concurrent_writer world0, [])"
  have c1: "ddb_call ?t = (False, ?t1)" by simp
  have c2: "ddb_call ?t1 = (False, ?t2)" by simp
  have stale: "stale_at_write ?t1 ?t2 ?key"
    by (simp add: stale_at_write_def stored_version_def item_version_def sample_defs)
  have stale_r: "stale_at_write ?t1 ?t2
                   (connector_key (uc_tenant_context rename0) (uc_connector_id rename0))"
    using stale by (simp add: tc)
  have cp: "has_checkpoint ?t1 ?key"
    by (simp add: has_checkpoint_def sample_defs)
  from version_optimistic_lock
         [OF c1 c2, where tc = tenant0 and cid = "''cc-1''" and st = IN_USE
            and d = "''page-4''" and request = rename0]
       stale stale_r cp
  have conflicts:
    "update_connector_status tenant0 ''cc-1'' IN_USE ?t = (Inl ConnectorDaoConflictError, ?t2)"
    "update_connector rename0 ?t = (Inl ConnectorDaoConflictError, ?t2)"
    "put_checkpoint tenant0 ''cc-1'' ''page-4'' ?t = (Inl ConnectorDaoConflictError, ?t2)"
    "delete_checkpoint tenant0 ''cc-1'' ?t = (Inl ConnectorDaoConflictError, ?t2)"
    by blast+
  from alone tc have alone':
    "stored_version (fst (snd (update_connector_status tenant0 ''cc-1'' IN_USE ?s))) ?key = Some 2"
    "map_sum id ur_version (fst (update_connector rename0 ?s)) = Inr 2"
    "stored_version (fst (snd (update_connector rename0 ?s))) ?key = Some 2"
    "stored_version (fst (snd (put_checkpoint tenant0 ''cc-1'' ''page-4'' ?s))) ?key = Some 2"
    "stored_version (fst (snd (delete_checkpoint tenant0 ''cc-1'' ?s))) ?key = Some 2"
    by simp_all
  from alone(1,5,7) alone' b1 b2 b3 b4 stale conflicts show ?thesis by blast
qed

section \<open>Schedules without concurrent writers\<close>

lemmas sample_defs2 = sample_defs connector_in_use_def job0_def world1_def request0_def

lemmas jobs_dao_defs =
  update_job_status_def apply_update_def verify_connector_exists_def update_expr_def
  TTL_DAYS_AFTER_STOP_def start_job_def

lemma ddb_call_calm:
  assumes "calm (snd s)" and "ddb_call s = (f, s')"
  shows "fst s' = fst s \<and> calm (snd s')"
proof (cases s)
  case (Pair w es)
  show ?thesis
  proof (cases es)
    case Nil
    with Pair assms show ?thesis by auto
  next
    case (Cons a as)
    with Pair assms show ?thesis by (cases a) (auto simp: calm_def)
  qed
qed

lemma get_connector_calm:
  assumes "calm (snd s)" and "get_connector tc cid s = (r, s')"
  shows "fst s' = fst s \<and> calm (snd s')"
proof -
  obtain f s1 where c: "ddb_call s = (f, s1)" by (cases "ddb_call s")
  from assms(2) c have "s' = s1"
    unfolding get_connector_def by (auto split: bool.splits option.splits)
  with ddb_call_calm [OF assms(1) c] show ?thesis by simp
qed

lemma verify_connector_exists_calm:
  assumes "calm (snd s)" and "verify_connector_exists tc cid s = (r, s')"
  shows "fst s' = fst s \<and> calm (snd s')"
proof -
  obtain r0 s0 where g: "get_connector tc cid s = (r0, s0)"
    by (cases "get_connector tc cid s")
  from assms(2) g have "s' = s0"
    unfolding verify_connector_exists_def by (auto split: sum.splits)
  with get_connector_calm [OF assms(1) g] show ?thesis by simp
qed

section \<open>Jobs read as STOPPED or FAILED are never updated\<close>




section \<open>What \<^verbatim>\<open>update_job_status\<close> writes\<close>


lemma update_expr_terminal:
  assumes "status req \<in> {STOPPED, FAILED, SUCCEEDED}"
  shows "j_status (update_expr req n e stored) = status req
       \<and> j_ttl (update_expr req n e stored) = Some (str (e + 7 * 24 * 60 * 60))"
  using assms by (auto simp: update_expr_def Let_def TTL_DAYS_AFTER_STOP_def split: option.splits)


lemma update_job_status_quiet_terminal:
  assumes "connectors_table w (connector_key (tenant_context req) (connector_id req)) = Some c"
    and "model_validate (c_container_properties c) = Some p"
    and "c_version c = Some v"
    and "jobs_table w (job_key (tenant_context req) (job_id req)) = Some j"
    and "j_status j \<notin> {STOPPED, FAILED}"
    and "status req \<in> {STOPPED, FAILED, SUCCEEDED}"
  shows "update_job_status req (w, []) =
           (Inr (),
            (w\<lparr>jobs_table := (jobs_table w)
                  (job_key (tenant_context req) (job_id req) \<mapsto>
                     update_expr req (clock_iso w) (clock_epoch w) j),
               connectors_table := (connectors_table w)
                  (connector_key (tenant_context req) (connector_id req) \<mapsto>
                     c\<lparr>c_status := AVAILABLE, c_version := Some (v + 1),
                       c_updated_at := clock_iso w\<rparr>)\<rparr>, []))"
  using assms
  by (auto simp: update_job_status_def apply_update_def verify_connector_exists_def
      get_connector_def update_connector_status_def write_if_version_def item_version_def Let_def)

lemma update_job_status_quiet_nonterminal:
  assumes "connectors_table w (connector_key (tenant_context req) (connector_id req)) = Some c"
    and "model_validate (c_container_properties c) = Some p"
    and "jobs_table w (job_key (tenant_context req) (job_id req)) = Some j"
    and "j_status j \<notin> {STOPPED, FAILED}"
    and "status req \<in> {STARTED, RUNNING, STOPPING}"
  shows "update_job_status req (w, []) =
           (Inr (),
            (w\<lparr>jobs_table := (jobs_table w)
                  (job_key (tenant_context req) (job_id req) \<mapsto>
                     j\<lparr>j_status := status req, j_updated_at := clock_iso w,
                       j_batch_job_id := (case batch_job_id req of
                                            None \<Rightarrow> j_batch_job_id j | Some b \<Rightarrow> Some b)\<rparr>)\<rparr>, []))"
  using assms
  by (auto simp: update_job_status_def apply_update_def verify_connector_exists_def
      get_connector_def update_expr_def Let_def split: option.splits)

lemma apply_update_calm:
  assumes "calm es" and "apply_update req (w, es) = (Inr u, s4)"
  shows "\<exists>j. jobs_table w (job_key (tenant_context req) (job_id req)) = Some j
            \<and> fst s4 = w\<lparr>jobs_table := (jobs_table w)
                  (job_key (tenant_context req) (job_id req) \<mapsto>
                     update_expr req (clock_iso w) (clock_epoch w) j)\<rparr>"
proof -
  obtain r1 s1
    where v: "verify_connector_exists (tenant_context req) (connector_id req) (w, es) = (r1, s1)"
    by (cases "verify_connector_exists (tenant_context req) (connector_id req) (w, es)")
  from verify_connector_exists_calm [OF _ v] assms(1)
  have s1: "fst s1 = w" "calm (snd s1)" by simp_all
  obtain f2 s2 where c2: "ddb_call s1 = (f2, s2)" by (cases "ddb_call s1")
  from ddb_call_calm [OF s1(2) c2] s1 have s2: "fst s2 = w" "calm (snd s2)" by simp_all
  obtain f3 s3 where c3: "ddb_call s2 = (f3, s3)" by (cases "ddb_call s2")
  from ddb_call_calm [OF s2(2) c3] s2 have s3: "fst s3 = w" by simp
  from assms(2) v c2 c3 s2 s3 show ?thesis
    unfolding apply_update_def Let_def
    by (cases s3) (auto split: sum.splits bool.splits option.splits if_splits)
qed

section \<open>Reaching STOPPED, FAILED or SUCCEEDED\<close>

lemmas sample_defs3 = sample_defs2 connector_deleter_def connector_toucher_def






section \<open>Updates to STARTED, RUNNING or STOPPING\<close>

text \<open>
  Claim C10. Let the new status be STARTED, RUNNING or STOPPING. A call that runs alone on
  a world whose connector exists and whose job is not stored as STOPPED or FAILED
  succeeds, and the world it leaves differs from the one it found in the stored job only,
  where status and \<^verbatim>\<open>updated_at\<close> are replaced, and \<^verbatim>\<open>batch_job_id\<close> is replaced exactly when
  the request carries one. Whenever such a call succeeds while no other invocation writes,
  the connectors table is the one it found and the same holds: no connector item is
  written, \<^verbatim>\<open>ttl\<close> and every other attribute of the job keep their values.
\<close>

theorem nonterminal_update_frame:
  assumes st: "status req \<in> {STARTED, RUNNING, STOPPING}"
  shows "(connectors_table w (connector_key (tenant_context req) (connector_id req)) = Some c
          \<and> model_validate (c_container_properties c) \<noteq> None
          \<and> jobs_table w (job_key (tenant_context req) (job_id req)) = Some j
          \<and> j_status j \<notin> {STOPPED, FAILED} \<longrightarrow>
          update_job_status req (w, []) =
            (Inr (),
             (w\<lparr>jobs_table := (jobs_table w)
                   (job_key (tenant_context req) (job_id req) \<mapsto>
                      j\<lparr>j_status := status req, j_updated_at := clock_iso w,
                        j_batch_job_id := (case batch_job_id req of
                                             None \<Rightarrow> j_batch_job_id j
                                           | Some b \<Rightarrow> Some b)\<rparr>)\<rparr>, [])))
       \<and> (calm es \<and> update_job_status req (w, es) = (Inr (), s') \<longrightarrow>
          connectors_table (fst s') = connectors_table w
          \<and> (case jobs_table w (job_key (tenant_context req) (job_id req)) of
                None \<Rightarrow> False
              | Some j \<Rightarrow>
                  fst s' = w\<lparr>jobs_table := (jobs_table w)
                    (job_key (tenant_context req) (job_id req) \<mapsto>
                       j\<lparr>j_status := status req, j_updated_at := clock_iso w,
                         j_batch_job_id := (case batch_job_id req of
                                              None \<Rightarrow> j_batch_job_id j
                                            | Some b \<Rightarrow> Some b)\<rparr>)\<rparr>))"
proof (intro conjI impI)
  assume quiet: "connectors_table w (connector_key (tenant_context req) (connector_id req)) = Some c
          \<and> model_validate (c_container_properties c) \<noteq> None
          \<and> jobs_table w (job_key (tenant_context req) (job_id req)) = Some j
          \<and> j_status j \<notin> {STOPPED, FAILED}"
  then obtain p where "model_validate (c_container_properties c) = Some p" by auto
  with quiet st show "update_job_status req (w, []) =
            (Inr (),
             (w\<lparr>jobs_table := (jobs_table w)
                   (job_key (tenant_context req) (job_id req) \<mapsto>
                      j\<lparr>j_status := status req, j_updated_at := clock_iso w,
                        j_batch_job_id := (case batch_job_id req of
                                             None \<Rightarrow> j_batch_job_id j
                                           | Some b \<Rightarrow> Some b)\<rparr>)\<rparr>, []))"
    by (intro update_job_status_quiet_nonterminal) simp_all
next
  assume run: "calm es \<and> update_job_status req (w, es) = (Inr (), s')"
  from st have nt: "status req \<notin> {STOPPED, FAILED, SUCCEEDED}" by auto
  with run have "apply_update req (w, es) = (Inr (), s')"
    unfolding update_job_status_def by (auto split: sum.splits prod.splits)
  from apply_update_calm [OF _ this] run obtain j0 where
    j: "jobs_table w (job_key (tenant_context req) (job_id req)) = Some j0"
    and s': "fst s' = w\<lparr>jobs_table := (jobs_table w)
                  (job_key (tenant_context req) (job_id req) \<mapsto>
                     update_expr req (clock_iso w) (clock_epoch w) j0)\<rparr>" by blast
  from nt have expr: "update_expr req (clock_iso w) (clock_epoch w) j0 =
      j0\<lparr>j_status := status req, j_updated_at := clock_iso w,
         j_batch_job_id := (case batch_job_id req of
                              None \<Rightarrow> j_batch_job_id j0 | Some b \<Rightarrow> Some b)\<rparr>"
    by (auto simp: update_expr_def Let_def split: option.splits)
  from s' show "connectors_table (fst s') = connectors_table w" by simp
  from j s' expr
  show "case jobs_table w (job_key (tenant_context req) (job_id req)) of
                None \<Rightarrow> False
              | Some j \<Rightarrow>
                  fst s' = w\<lparr>jobs_table := (jobs_table w)
                    (job_key (tenant_context req) (job_id req) \<mapsto>
                       j\<lparr>j_status := status req, j_updated_at := clock_iso w,
                         j_batch_job_id := (case batch_job_id req of
                                              None \<Rightarrow> j_batch_job_id j
                                            | Some b \<Rightarrow> Some b)\<rparr>)\<rparr>"
    by simp
qed

theorem nonterminal_update_frame_witness:
  "update_job_status (request0 STOPPING None) (world1 RUNNING, [])
     = (Inr (),
        ((world1 RUNNING)\<lparr>jobs_table := [job_key tenant0 ''ccj-1'' \<mapsto>
            job0\<lparr>j_status := STOPPING, j_updated_at := iso_t1\<rparr>]\<rparr>, []))
   \<and> j_batch_job_id (job0\<lparr>j_status := STOPPING, j_updated_at := iso_t1\<rparr>) = Some ''batch-1''
   \<and> j_ttl (job0\<lparr>j_status := STOPPING, j_updated_at := iso_t1\<rparr>) = None
   \<and> connectors_table (fst (snd (update_job_status (request0 STOPPING None) (world1 RUNNING, []))))
        = connectors_table (world1 RUNNING)"
proof -
  let ?req = "request0 STOPPING None"
  have st: "status ?req \<in> {STARTED, RUNNING, STOPPING}" by (simp add: request0_def)
  note main = nonterminal_update_frame [OF st]
  have quiet_hyps:
    "connectors_table (world1 RUNNING) (connector_key (tenant_context ?req) (connector_id ?req))
       = Some connector_in_use
     \<and> model_validate (c_container_properties connector_in_use) \<noteq> None
     \<and> jobs_table (world1 RUNNING) (job_key (tenant_context ?req) (job_id ?req))
       = Some (job0\<lparr>j_status := RUNNING\<rparr>)
     \<and> j_status (job0\<lparr>j_status := RUNNING\<rparr>) \<notin> {STOPPED, FAILED}"
    by (simp add: sample_defs3 model_validate_def model_dump_def)
  from main quiet_hyps
  have run: "update_job_status ?req (world1 RUNNING, []) =
            (Inr (),
             ((world1 RUNNING)\<lparr>jobs_table := (jobs_table (world1 RUNNING))
                   (job_key (tenant_context ?req) (job_id ?req) \<mapsto>
                      (job0\<lparr>j_status := RUNNING\<rparr>)\<lparr>j_status := status ?req,
                        j_updated_at := clock_iso (world1 RUNNING),
                        j_batch_job_id := (case batch_job_id ?req of
                             None \<Rightarrow> j_batch_job_id (job0\<lparr>j_status := RUNNING\<rparr>)
                           | Some b \<Rightarrow> Some b)\<rparr>)\<rparr>, []))"
    by blast
  have calm: "calm []" by (simp add: calm_def)
  from main [where es = "[]" and w = "world1 RUNNING"] calm run
  have frame: "connectors_table (fst (snd (update_job_status ?req (world1 RUNNING, []))))
        = connectors_table (world1 RUNNING)" by simp
  have a: "update_job_status ?req (world1 RUNNING, [])
     = (Inr (),
        ((world1 RUNNING)\<lparr>jobs_table := [job_key tenant0 ''ccj-1'' \<mapsto>
            job0\<lparr>j_status := STOPPING, j_updated_at := iso_t1\<rparr>]\<rparr>, []))"
    unfolding run by (simp add: sample_defs3)
  from a frame show ?thesis by (simp add: job0_def)
qed

section \<open>Starting a job on a connector that is IN_USE\<close>





section \<open>Change-feed events that carry STARTED\<close>

lemmas handler_defs =
  record_handler_def handle_job_start_def start_attempt_def mark_failed_def batch_invoke_def
  compose_environment_def truthy_def process_batch_event_def map_batch_status_def env_get_def
  handle_job_stop_def

lemmas sample_defs4 = sample_defs3 cfg0_def image0_def event0_def

lemma from_arn_prefix_sample:
  "from_arn_prefix ''arn:aws:ccf:us-west-2:123456789012'' = Some tenant0"
  by (simp add: from_arn_prefix_def is_digit_def tenant0_def)

text \<open>Run alone, the DAO operations touch the two tables only.\<close>

lemma update_connector_status_service:
  "same_service w (snd (update_connector_status tc cid st (w, [])))"
  by (auto simp: same_service_def update_connector_status_def write_if_version_def Let_def
           split: option.splits)

lemma apply_update_service:
  "same_service w (snd (apply_update req (w, [])))"
  by (auto simp: same_service_def apply_update_def verify_connector_exists_def
        get_connector_def Let_def split: option.splits)

lemma update_job_status_service:
  "same_service w (snd (update_job_status req (w, [])))"
proof -
  obtain r4 w4 es4 where a: "apply_update req (w, []) = (r4, (w4, es4))"
    by (cases "apply_update req (w, [])") auto
  with apply_update_service [of w req] have s4: "same_service w (w4, [])" "es4 = []"
    by (simp_all add: same_service_def)
  from update_connector_status_service [of w4 "tenant_context req" "connector_id req" AVAILABLE] s4
  have "same_service w (snd (update_connector_status (tenant_context req) (connector_id req) AVAILABLE (w4, [])))"
    by (simp add: same_service_def)
  with a s4 show ?thesis
    by (auto simp: update_job_status_def split: sum.splits prod.splits connector_dao_error.splits)
qed

lemma mark_failed_service:
  "same_service w (mark_failed tc cid jid bid (w, []))"
proof -
  let ?req = "\<lparr>tenant_context = tc, connector_id = cid, job_id = jid, status = FAILED, batch_job_id = bid\<rparr>"
  obtain r1 w1 es1 where a: "update_job_status ?req (w, []) = (r1, (w1, es1))"
    by (cases "update_job_status ?req (w, [])") auto
  with update_job_status_service [of w ?req] have s1: "same_service w (w1, [])" "es1 = []"
    by (simp_all add: same_service_def)
  from update_connector_status_service [of w1 tc cid AVAILABLE] s1
  have "same_service w (snd (update_connector_status tc cid AVAILABLE (w1, [])))"
    by (simp add: same_service_def)
  with a s1 show ?thesis
    by (auto simp: mark_failed_def split: sum.splits)
qed

lemma handle_job_start_calls:
  assumes c: "connectors_table w (connector_key (ctx_tenant_context ctx) (ctx_connector_id ctx)) = Some c"
    and p: "model_validate (c_container_properties c) = Some props"
  shows "batch_calls (fst (handle_job_start cfg ctx (w, []))) =
           batch_calls w
           @ RegisterJobDefinition (ctx_job_id ctx) props (compose_environment cfg ctx (c_arn c))
           # (case batch_service w
                     (RegisterJobDefinition (ctx_job_id ctx) props
                        (compose_environment cfg ctx (c_arn c))) of
                None \<Rightarrow> []
              | Some job_definition_arn \<Rightarrow>
                  [SubmitJob (ctx_job_id ctx) job_definition_arn (timeout props)])"
proof -
  let ?reg = "RegisterJobDefinition (ctx_job_id ctx) props (compose_environment cfg ctx (c_arn c))"
  let ?w2 = "w\<lparr>batch_calls := batch_calls w @ [?reg]\<rparr>"
  let ?tc = "ctx_tenant_context ctx"
  let ?cid = "ctx_connector_id ctx"
  let ?jid = "ctx_job_id ctx"
  show ?thesis
  proof (cases "batch_service w ?reg")
    case None
    with c p have "handle_job_start cfg ctx (w, []) = mark_failed ?tc ?cid ?jid None (?w2, [])"
      by (simp add: handle_job_start_def start_attempt_def get_connector_def batch_invoke_def)
    with mark_failed_service [of ?w2 ?tc ?cid ?jid None] None show ?thesis
      by (simp add: same_service_def)
  next
    case (Some arn)
    let ?sub = "SubmitJob ?jid arn (timeout props)"
    let ?w3 = "w\<lparr>batch_calls := batch_calls w @ [?reg, ?sub]\<rparr>"
    show ?thesis
    proof (cases "batch_service w ?sub")
      case None
      with Some c p have "handle_job_start cfg ctx (w, []) = mark_failed ?tc ?cid ?jid None (?w3, [])"
        by (simp add: handle_job_start_def start_attempt_def get_connector_def batch_invoke_def)
      with mark_failed_service [of ?w3 ?tc ?cid ?jid None] Some show ?thesis
        by (simp add: same_service_def)
    next
      case (Some bid)
      let ?req = "\<lparr>tenant_context = ?tc, connector_id = ?cid, job_id = ?jid,
                     status = RUNNING, batch_job_id = Some bid\<rparr>"
      obtain r4 w4 es4 where u: "update_job_status ?req (?w3, []) = (r4, (w4, es4))"
        by (cases "update_job_status ?req (?w3, [])") auto
      with update_job_status_service [of ?w3 ?req]
      have s4: "same_service ?w3 (w4, [])" "es4 = []" by (simp_all add: same_service_def)
      from Some \<open>batch_service w ?reg = Some arn\<close> c p u
      have "handle_job_start cfg ctx (w, []) =
              (case r4 of Inl e \<Rightarrow> mark_failed ?tc ?cid ?jid None (w4, es4) | Inr d \<Rightarrow> (w4, es4))"
        by (simp add: handle_job_start_def start_attempt_def get_connector_def batch_invoke_def
              split: sum.splits)
      with s4 mark_failed_service [of w4 ?tc ?cid ?jid None] \<open>batch_service w ?reg = Some arn\<close>
      show ?thesis
        by (auto simp: same_service_def split: sum.splits)
    qed
  qed
qed


text \<open>
  Claim C3, as the code has it. \<^verbatim>\<open>record_handler\<close> decides from the status the event
  carries and never reads the job. For an event carrying STARTED whose connector is found,
  the calls made to the batch-compute service are the register call and, when that is
  answered, the submit call, whatever the jobs table holds (\<open>jt\<close> is arbitrary). Work is
  not submitted only when the event itself carries a status other than STARTED: an event
  carrying neither STARTED nor STOPPING leaves the state as it is.
\<close>

theorem started_event_submits_whatever_the_job:
  assumes jid: "ni_job_id img = Some jid" "jid \<noteq> []"
    and cid: "ni_connector_id img = Some cid" "cid \<noteq> []"
    and prefix: "ni_custom_connector_arn_prefix img = Some prefix"
      "from_arn_prefix prefix = Some tc"
    and c: "connectors_table w (connector_key tc cid) = Some c"
      "model_validate (c_container_properties c) = Some props"
    and ctx: "ctx = \<lparr>ctx_job_id = jid, ctx_connector_id = cid,
                     ctx_custom_connector_arn_prefix = prefix,
                     ctx_environment = (case ni_environment img of None \<Rightarrow> [] | Some e \<Rightarrow> e),
                     ctx_tenant_context = tc\<rparr>"
  shows "(ni_status img = Some ''STARTED'' \<longrightarrow>
            batch_calls (fst (snd (record_handler cfg (Some img) (w\<lparr>jobs_table := jt\<rparr>, [])))) =
              batch_calls w
              @ RegisterJobDefinition jid props (compose_environment cfg ctx (c_arn c))
              # (case batch_service w
                        (RegisterJobDefinition jid props
                           (compose_environment cfg ctx (c_arn c))) of
                   None \<Rightarrow> []
                 | Some job_definition_arn \<Rightarrow>
                     [SubmitJob jid job_definition_arn (timeout props)]))
       \<and> (ni_status img \<noteq> Some ''STARTED'' \<and> ni_status img \<noteq> Some ''STOPPING'' \<longrightarrow>
            record_handler cfg (Some img) s = (Inr (), s))"
proof (intro conjI impI)
  from prefix(2) have pre: "prefix \<noteq> []" by (auto simp: from_arn_prefix_def)
  {
    assume st: "ni_status img = Some ''STARTED''"
    with jid cid prefix pre ctx
    have "record_handler cfg (Some img) (w\<lparr>jobs_table := jt\<rparr>, [])
            = (Inr (), handle_job_start cfg ctx (w\<lparr>jobs_table := jt\<rparr>, []))"
      by (simp add: record_handler_def truthy_def)
    moreover have "connectors_table (w\<lparr>jobs_table := jt\<rparr>)
                     (connector_key (ctx_tenant_context ctx) (ctx_connector_id ctx)) = Some c"
      using c ctx by simp
    ultimately show "batch_calls (fst (snd (record_handler cfg (Some img) (w\<lparr>jobs_table := jt\<rparr>, [])))) =
              batch_calls w
              @ RegisterJobDefinition jid props (compose_environment cfg ctx (c_arn c))
              # (case batch_service w
                        (RegisterJobDefinition jid props
                           (compose_environment cfg ctx (c_arn c))) of
                   None \<Rightarrow> []
                 | Some job_definition_arn \<Rightarrow>
                     [SubmitJob jid job_definition_arn (timeout props)])"
      using handle_job_start_calls [of "w\<lparr>jobs_table := jt\<rparr>" ctx c props cfg] c(2) ctx
      by (simp cong: option.case_cong)
  }
  {
    assume "ni_status img \<noteq> Some ''STARTED'' \<and> ni_status img \<noteq> Some ''STOPPING''"
    with jid cid prefix pre show "record_handler cfg (Some img) s = (Inr (), s)"
      by (auto simp: record_handler_def truthy_def Let_def split: option.splits)
  }
qed

theorem started_event_witness:
  "batch_calls (fst (snd (record_handler cfg0 (Some image0) (world1 STOPPED, [])))) =
       [RegisterJobDefinition ''ccj-1'' props0
          [(''CUSTOM_CONNECTOR_JOB_ID'', ''ccj-1''),
           (''CUSTOM_CONNECTOR_FRAMEWORK_CUSTOM_CONNECTOR_ID'', ''cc-1''),
           (''CUSTOM_CONNECTOR_FRAMEWORK_CUSTOM_CONNECTOR_ARN'',
            ''arn:aws:ccf:us-west-2:123456789012:custom-connector/cc-1''),
           (''CUSTOM_CONNECTOR_FRAMEWORK_CUSTOM_CONNECTOR_ARN_PREFIX'',
            ''arn:aws:ccf:us-west-2:123456789012''),
           (''AWS_REGION'', ''us-west-2''),
           (''CUSTOM_CONNECTOR_FRAMEWORK_API_ENDPOINT'', ''https://api'')],
        SubmitJob ''ccj-1'' ''jobdef/ccj-1'' 3600]
   \<and> record_handler cfg0 (Some (image0\<lparr>ni_status := Some ''RUNNING''\<rparr>)) (world1 RUNNING, [])
       = (Inr (), (world1 RUNNING, []))"
proof -
  let ?ctx = "\<lparr>ctx_job_id = ''ccj-1'', ctx_connector_id = ''cc-1'',
               ctx_custom_connector_arn_prefix = ''arn:aws:ccf:us-west-2:123456789012'',
               ctx_environment = (case ni_environment image0 of None \<Rightarrow> [] | Some e \<Rightarrow> e),
               ctx_tenant_context = tenant0\<rparr>"
  have c: "connectors_table (world1 STOPPED) (connector_key tenant0 ''cc-1'') = Some connector_in_use"
    by (simp add: sample_defs4)
  have p: "model_validate (c_container_properties connector_in_use) = Some props0"
    by (simp add: sample_defs4 model_validate_def model_dump_def)
  have same: "(world1 STOPPED)\<lparr>jobs_table := jobs_table (world1 STOPPED)\<rparr> = world1 STOPPED"
    by simp
  from started_event_submits_whatever_the_job
         [of image0 "''ccj-1''" "''cc-1''" "''arn:aws:ccf:us-west-2:123456789012''" tenant0
             "world1 STOPPED" connector_in_use props0 ?ctx cfg0 "jobs_table (world1 STOPPED)",
          OF _ _ _ _ _ from_arn_prefix_sample c p refl]
  have "batch_calls (fst (snd (record_handler cfg0 (Some image0) (world1 STOPPED, [])))) =
          batch_calls (world1 STOPPED)
          @ RegisterJobDefinition ''ccj-1'' props0 (compose_environment cfg0 ?ctx (c_arn connector_in_use))
          # (case batch_service (world1 STOPPED)
                    (RegisterJobDefinition ''ccj-1'' props0
                       (compose_environment cfg0 ?ctx (c_arn connector_in_use))) of
               None \<Rightarrow> []
             | Some job_definition_arn \<Rightarrow> [SubmitJob ''ccj-1'' job_definition_arn (timeout props0)])"
    unfolding same by (simp add: image0_def)
  then have a: "batch_calls (fst (snd (record_handler cfg0 (Some image0) (world1 STOPPED, [])))) =
       [RegisterJobDefinition ''ccj-1'' props0
          [(''CUSTOM_CONNECTOR_JOB_ID'', ''ccj-1''),
           (''CUSTOM_CONNECTOR_FRAMEWORK_CUSTOM_CONNECTOR_ID'', ''cc-1''),
           (''CUSTOM_CONNECTOR_FRAMEWORK_CUSTOM_CONNECTOR_ARN'',
            ''arn:aws:ccf:us-west-2:123456789012:custom-connector/cc-1''),
           (''CUSTOM_CONNECTOR_FRAMEWORK_CUSTOM_CONNECTOR_ARN_PREFIX'',
            ''arn:aws:ccf:us-west-2:123456789012''),
           (''AWS_REGION'', ''us-west-2''),
           (''CUSTOM_CONNECTOR_FRAMEWORK_API_ENDPOINT'', ''https://api'')],
        SubmitJob ''ccj-1'' ''jobdef/ccj-1'' 3600]"
    by (simp add: sample_defs4 compose_environment_def)
  let ?img = "image0\<lparr>ni_status := Some ''RUNNING''\<rparr>"
  let ?ctx2 = "\<lparr>ctx_job_id = ''ccj-1'', ctx_connector_id = ''cc-1'',
               ctx_custom_connector_arn_prefix = ''arn:aws:ccf:us-west-2:123456789012'',
               ctx_environment = (case ni_environment ?img of None \<Rightarrow> [] | Some e \<Rightarrow> e),
               ctx_tenant_context = tenant0\<rparr>"
  have c2: "connectors_table (world1 RUNNING) (connector_key tenant0 ''cc-1'') = Some connector_in_use"
    by (simp add: sample_defs4)
  from started_event_submits_whatever_the_job
         [of ?img "''ccj-1''" "''cc-1''" "''arn:aws:ccf:us-west-2:123456789012''" tenant0
             "world1 RUNNING" connector_in_use props0 ?ctx2 cfg0 _ "(world1 RUNNING, [])",
          OF _ _ _ _ _ from_arn_prefix_sample c2 p refl]
  have b: "record_handler cfg0 (Some ?img) (world1 RUNNING, []) = (Inr (), (world1 RUNNING, []))"
    by (simp add: image0_def)
  from a b show ?thesis by blast
qed

text \<open>
  The claim as worded fails: the stored job is already RUNNING, the redelivered event
  carries STARTED, and the controller registers and submits the work again.
\<close>

theorem started_event_counterexample:
  "ni_status image0 = Some ''STARTED''
   \<and> map_option j_status (jobs_table (world1 RUNNING) (job_key tenant0 ''ccj-1'')) = Some RUNNING
   \<and> batch_calls (world1 RUNNING) = []
   \<and> batch_calls (fst (snd (record_handler cfg0 (Some image0) (world1 RUNNING, [])))) =
       [RegisterJobDefinition ''ccj-1'' props0
          [(''CUSTOM_CONNECTOR_JOB_ID'', ''ccj-1''),
           (''CUSTOM_CONNECTOR_FRAMEWORK_CUSTOM_CONNECTOR_ID'', ''cc-1''),
           (''CUSTOM_CONNECTOR_FRAMEWORK_CUSTOM_CONNECTOR_ARN'',
            ''arn:aws:ccf:us-west-2:123456789012:custom-connector/cc-1''),
           (''CUSTOM_CONNECTOR_FRAMEWORK_CUSTOM_CONNECTOR_ARN_PREFIX'',
            ''arn:aws:ccf:us-west-2:123456789012''),
           (''AWS_REGION'', ''us-west-2''),
           (''CUSTOM_CONNECTOR_FRAMEWORK_API_ENDPOINT'', ''https://api'')],
        SubmitJob ''ccj-1'' ''jobdef/ccj-1'' 3600]"
  by (simp add: handler_defs jobs_dao_defs connectors_dao_defs sample_defs4 Let_def
        from_arn_prefix_sample [unfolded tenant0_def])


section \<open>External completion\<close>

text \<open>
  Claim C6. The status computed from a backend outcome and the status read from the stored
  job is SUCCEEDED for a SUCCEEDED outcome, STOPPED for a FAILED outcome when the job was
  read as STOPPING, and FAILED for a FAILED outcome otherwise. A notification handled
  alone, for a stored job that is not STOPPED or FAILED and whose connector exists, ends
  normally and leaves the job with exactly that status.
\<close>

theorem completion_outcome_mapping:
  "map_batch_status ''SUCCEEDED'' cur = Some SUCCEEDED
   \<and> map_batch_status ''FAILED'' (Some STOPPING) = Some STOPPED
   \<and> (cur \<noteq> Some STOPPING \<longrightarrow> map_batch_status ''FAILED'' cur = Some FAILED)
   \<and> (jobName ev = Some jid \<and> jid \<noteq> []
        \<and> ev_status ev = Some outcome \<and> outcome \<in> {''SUCCEEDED'', ''FAILED''}
        \<and> env_get (container_environment ev)
             ''CUSTOM_CONNECTOR_FRAMEWORK_CUSTOM_CONNECTOR_ID'' = Some cid
        \<and> env_get (container_environment ev)
             ''CUSTOM_CONNECTOR_FRAMEWORK_CUSTOM_CONNECTOR_ARN_PREFIX'' = Some prefix
        \<and> from_arn_prefix prefix = Some tc \<and> get_arn_prefix tc = prefix
        \<and> connectors_table w (connector_key tc cid) = Some c
        \<and> model_validate (c_container_properties c) \<noteq> None \<and> c_version c = Some v
        \<and> jobs_table w (prefix, jid) = Some j \<and> j_status j \<notin> {STOPPED, FAILED} \<longrightarrow>
        fst (process_batch_event ev (w, [])) = Inr ()
        \<and> map_option j_status
             (jobs_table (fst (snd (process_batch_event ev (w, [])))) (prefix, jid))
           = Some (if outcome = ''SUCCEEDED'' then SUCCEEDED
                   else if j_status j = STOPPING then STOPPED else FAILED))"
proof (intro conjI impI)
  show "map_batch_status ''SUCCEEDED'' cur = Some SUCCEEDED"
    and "map_batch_status ''FAILED'' (Some STOPPING) = Some STOPPED"
    by (simp_all add: map_batch_status_def)
  show "cur \<noteq> Some STOPPING \<Longrightarrow> map_batch_status ''FAILED'' cur = Some FAILED"
    by (simp add: map_batch_status_def)
next
  assume h: "jobName ev = Some jid \<and> jid \<noteq> []
        \<and> ev_status ev = Some outcome \<and> outcome \<in> {''SUCCEEDED'', ''FAILED''}
        \<and> env_get (container_environment ev)
             ''CUSTOM_CONNECTOR_FRAMEWORK_CUSTOM_CONNECTOR_ID'' = Some cid
        \<and> env_get (container_environment ev)
             ''CUSTOM_CONNECTOR_FRAMEWORK_CUSTOM_CONNECTOR_ARN_PREFIX'' = Some prefix
        \<and> from_arn_prefix prefix = Some tc \<and> get_arn_prefix tc = prefix
        \<and> connectors_table w (connector_key tc cid) = Some c
        \<and> model_validate (c_container_properties c) \<noteq> None \<and> c_version c = Some v
        \<and> jobs_table w (prefix, jid) = Some j \<and> j_status j \<notin> {STOPPED, FAILED}"
  define target where
    "target = (if outcome = ''SUCCEEDED'' then SUCCEEDED
               else if j_status j = STOPPING then STOPPED else FAILED)"
  define req where
    "req = \<lparr>tenant_context = tc, connector_id = cid, job_id = jid, status = target,
            batch_job_id = Some jid\<rparr>"
  from h have mapped: "map_batch_status outcome (map_option j_status (jobs_table w (prefix, jid))) = Some target"
    by (auto simp: map_batch_status_def target_def)
  have tgt: "status req \<in> {STOPPED, FAILED, SUCCEEDED}" by (simp add: req_def target_def)
  from h obtain p where p: "model_validate (c_container_properties c) = Some p" by auto
  let ?w1 = "w\<lparr>jobs_table := (jobs_table w)
                  (job_key (tenant_context req) (job_id req) \<mapsto>
                     update_expr req (clock_iso w) (clock_epoch w) j),
               connectors_table := (connectors_table w)
                  (connector_key (tenant_context req) (connector_id req) \<mapsto>
                     c\<lparr>c_status := AVAILABLE, c_version := Some (v + 1),
                       c_updated_at := clock_iso w\<rparr>)\<rparr>"
  have upd: "update_job_status req (w, []) = (Inr (), (?w1, []))"
    using h p tgt by (intro update_job_status_quiet_terminal [where p = p])
                     (simp_all add: req_def job_key_def)
  have flip: "\<exists>w2. update_connector_status tc cid AVAILABLE (?w1, []) = (Inr (), (w2, []))
                \<and> jobs_table w2 = jobs_table ?w1"
    using update_connector_status_quiet [of ?w1 tc cid "c\<lparr>c_status := AVAILABLE, c_version := Some (v + 1), c_updated_at := clock_iso w\<rparr>" "v + 1" AVAILABLE]
    by (simp add: req_def)
  then obtain w2 where w2: "update_connector_status tc cid AVAILABLE (?w1, []) = (Inr (), (w2, []))"
    "jobs_table w2 = jobs_table ?w1" by blast
  from h mapped upd w2 have run: "process_batch_event ev (w, []) = (Inr (), (w2, []))"
    by (simp add: process_batch_event_def truthy_def req_def Let_def)
  then show "fst (process_batch_event ev (w, [])) = Inr ()" by simp
  from run w2 h update_expr_terminal [OF tgt]
  show "map_option j_status
             (jobs_table (fst (snd (process_batch_event ev (w, [])))) (prefix, jid))
           = Some (if outcome = ''SUCCEEDED'' then SUCCEEDED
                   else if j_status j = STOPPING then STOPPED else FAILED)"
    by (simp add: req_def job_key_def target_def)
qed


theorem completion_outcome_witness:
  "map_option j_status
     (jobs_table (fst (snd (process_batch_event (event0 ''FAILED'') (world1 STOPPING, []))))
        (job_key tenant0 ''ccj-1'')) = Some STOPPED
   \<and> map_option j_status
     (jobs_table (fst (snd (process_batch_event (event0 ''FAILED'') (world1 RUNNING, []))))
        (job_key tenant0 ''ccj-1'')) = Some FAILED
   \<and> map_option j_status
     (jobs_table (fst (snd (process_batch_event (event0 ''SUCCEEDED'') (world1 STOPPING, []))))
        (job_key tenant0 ''ccj-1'')) = Some SUCCEEDED"
proof -
  have hyps: "\<And>outcome st. outcome \<in> {''SUCCEEDED'', ''FAILED''} \<Longrightarrow> st \<notin> {STOPPED, FAILED} \<Longrightarrow>
     jobName (event0 outcome) = Some ''ccj-1'' \<and> ''ccj-1'' \<noteq> []
        \<and> ev_status (event0 outcome) = Some outcome \<and> outcome \<in> {''SUCCEEDED'', ''FAILED''}
        \<and> env_get (container_environment (event0 outcome))
             ''CUSTOM_CONNECTOR_FRAMEWORK_CUSTOM_CONNECTOR_ID'' = Some ''cc-1''
        \<and> env_get (container_environment (event0 outcome))
             ''CUSTOM_CONNECTOR_FRAMEWORK_CUSTOM_CONNECTOR_ARN_PREFIX''
            = Some ''arn:aws:ccf:us-west-2:123456789012''
        \<and> from_arn_prefix ''arn:aws:ccf:us-west-2:123456789012'' = Some tenant0
        \<and> get_arn_prefix tenant0 = ''arn:aws:ccf:us-west-2:123456789012''
        \<and> connectors_table (world1 st) (connector_key tenant0 ''cc-1'') = Some connector_in_use
        \<and> model_validate (c_container_properties connector_in_use) \<noteq> None
        \<and> c_version connector_in_use = Some 2
        \<and> jobs_table (world1 st) (''arn:aws:ccf:us-west-2:123456789012'', ''ccj-1'')
            = Some (job0\<lparr>j_status := st\<rparr>)
        \<and> j_status (job0\<lparr>j_status := st\<rparr>) \<notin> {STOPPED, FAILED}"
    using from_arn_prefix_sample
    by (simp add: sample_defs4 env_get_def model_validate_def model_dump_def)
  have key: "job_key tenant0 ''ccj-1'' = (''arn:aws:ccf:us-west-2:123456789012'', ''ccj-1'')"
    by (simp add: sample_defs4)
  have run: "map_option j_status
       (jobs_table (fst (snd (process_batch_event (event0 outcome) (world1 st, []))))
          (job_key tenant0 ''ccj-1''))
     = Some (if outcome = ''SUCCEEDED'' then SUCCEEDED
             else if st = STOPPING then STOPPED else FAILED)"
    if "outcome \<in> {''SUCCEEDED'', ''FAILED''}" and "st \<notin> {STOPPED, FAILED}" for outcome st
  proof -
    from completion_outcome_mapping
           [where ev = "event0 outcome" and jid = "''ccj-1''" and outcome = outcome
              and cid = "''cc-1''" and prefix = "''arn:aws:ccf:us-west-2:123456789012''"
              and tc = tenant0 and w = "world1 st" and c = connector_in_use and v = 2
              and j = "job0\<lparr>j_status := st\<rparr>" and cur = None]
         hyps [OF that]
    have "map_option j_status
       (jobs_table (fst (snd (process_batch_event (event0 outcome) (world1 st, []))))
          (''arn:aws:ccf:us-west-2:123456789012'', ''ccj-1''))
     = Some (if outcome = ''SUCCEEDED'' then SUCCEEDED
             else if j_status (job0\<lparr>j_status := st\<rparr>) = STOPPING then STOPPED else FAILED)"
      by blast
    then show ?thesis unfolding key by (simp split del: if_split cong del: if_weak_cong)
  qed
  have a: "map_option j_status
     (jobs_table (fst (snd (process_batch_event (event0 ''FAILED'') (world1 STOPPING, []))))
        (job_key tenant0 ''ccj-1'')) = Some STOPPED"
    using run [of "''FAILED''" STOPPING] by simp
  have b: "map_option j_status
     (jobs_table (fst (snd (process_batch_event (event0 ''FAILED'') (world1 RUNNING, []))))
        (job_key tenant0 ''ccj-1'')) = Some FAILED"
    using run [of "''FAILED''" RUNNING] by simp
  have c: "map_option j_status
     (jobs_table (fst (snd (process_batch_event (event0 ''SUCCEEDED'') (world1 STOPPING, []))))
        (job_key tenant0 ''ccj-1'')) = Some SUCCEEDED"
    using run [of "''SUCCEEDED''" STOPPING] by simp
  from a b c show ?thesis by blast
qed

section \<open>The checksum leaves the timestamps out\<close>

lemmas builder_samples = meta0_def doc_a_def doc_a_touched_def doc_b_def env0_def ledger0_def

lemma model_dump_json_timestamps:
  assumes "title m1 = title m2" and "source_uri m1 = source_uri m2"
    and "attributes m1 = attributes m2" and "access_control_list m1 = access_control_list m2"
  shows "model_dump_json [''last_updated_at'', ''created_at''] m1
       = model_dump_json [''last_updated_at'', ''created_at''] m2"
  using assms by (simp add: model_dump_json_def metadata_fields_def)

lemma docs_to_sync_by_id:
  "docs_to_sync env ccf_docs current_docs =
     filter ((\<lambda>k. case ccf_docs k of
                     None \<Rightarrow> True
                   | Some entry \<Rightarrow> Some (checksum entry) \<noteq> current_checksums env current_docs k)
             \<circ> doc_id) current_docs"
  by (simp add: docs_to_sync_def comp_def)

text \<open>
  Claim C8. Two documents with the same id, the same file content and the same title,
  source URI, attributes and access control list have the same checksum, whatever their
  \<^verbatim>\<open>last_updated_at\<close> and \<^verbatim>\<open>created_at\<close> are and whatever the hash and the JSON writer do.
  Hence replacing one by the other in any list of documents leaves the ids chosen for
  sync the same, and a ledger that holds the checksum of the first never makes the second
  a candidate.
\<close>

theorem checksum_ignores_timestamps:
  assumes id: "doc_id d1 = doc_id d2"
    and content: "read_file env (file_path d1) = read_file env (file_path d2)"
    and meta: "title (metadata d1) = title (metadata d2)"
      "source_uri (metadata d1) = source_uri (metadata d2)"
      "attributes (metadata d1) = attributes (metadata d2)"
      "access_control_list (metadata d1) = access_control_list (metadata d2)"
  shows "get_checksum env d1 = get_checksum env d2
       \<and> map doc_id (docs_to_sync env ccf_docs (before @ d1 # after))
           = map doc_id (docs_to_sync env ccf_docs (before @ d2 # after))
       \<and> (map_option checksum (ccf_docs (doc_id d1)) = Some (get_checksum env d1) \<longrightarrow>
            docs_to_sync env ccf_docs [d2] = [])"
proof -
  have sum: "get_checksum env d1 = get_checksum env d2"
    using id content model_dump_json_timestamps [OF meta]
    by (simp add: get_checksum_def)
  have cc: "current_checksums env (before @ d1 # after) = current_checksums env (before @ d2 # after)"
    using id sum by (simp add: current_checksums_def)
  have ids: "map doc_id (before @ d1 # after) = map doc_id (before @ d2 # after)"
    using id by simp
  have sel: "map doc_id (docs_to_sync env ccf_docs (before @ d1 # after))
           = map doc_id (docs_to_sync env ccf_docs (before @ d2 # after))"
    unfolding docs_to_sync_by_id cc filter_map [symmetric] ids ..
  have never: "map_option checksum (ccf_docs (doc_id d1)) = Some (get_checksum env d1) \<longrightarrow>
            docs_to_sync env ccf_docs [d2] = []"
    using id sum
    by (auto simp: docs_to_sync_def current_checksums_def dict_of_def split: option.splits)
  from sum sel never show ?thesis by blast
qed

theorem checksum_ignores_timestamps_witness:
  "last_updated_at (metadata doc_a) \<noteq> last_updated_at (metadata doc_a_touched)
   \<and> get_checksum env0 doc_a = get_checksum env0 doc_a_touched
   \<and> docs_to_sync env0 ledger0 [doc_a_touched] = []"
proof -
  have id: "doc_id doc_a = doc_id doc_a_touched" by (simp add: builder_samples)
  have content: "read_file env0 (file_path doc_a) = read_file env0 (file_path doc_a_touched)"
    by (simp add: builder_samples)
  have meta: "title (metadata doc_a) = title (metadata doc_a_touched)"
      "source_uri (metadata doc_a) = source_uri (metadata doc_a_touched)"
      "attributes (metadata doc_a) = attributes (metadata doc_a_touched)"
      "access_control_list (metadata doc_a) = access_control_list (metadata doc_a_touched)"
    by (simp_all add: builder_samples)
  have held: "map_option checksum (ledger0 (doc_id doc_a)) = Some (get_checksum env0 doc_a)"
    by (simp add: ledger0_def doc_a_def)
  have differ: "last_updated_at (metadata doc_a) \<noteq> last_updated_at (metadata doc_a_touched)"
    by (simp add: builder_samples)
  from checksum_ignores_timestamps [OF id content meta, of ledger0] held differ
  show ?thesis by blast
qed

section \<open>Choosing nothing twice\<close>

lemma current_checksums_member:
  assumes "doc \<in> set docs"
  shows "\<exists>d \<in> set docs. doc_id d = doc_id doc
           \<and> current_checksums env docs (doc_id doc) = Some (get_checksum env d)"
proof -
  let ?kvs = "rev (map (\<lambda>d. (doc_id d, get_checksum env d)) docs)"
  from assms have "doc_id doc \<in> fst ` set ?kvs" by force
  then obtain v where v: "map_of ?kvs (doc_id doc) = Some v"
    by (cases "map_of ?kvs (doc_id doc)") (auto simp: map_of_eq_None_iff)
  from map_of_SomeD [OF v] obtain d where "d \<in> set docs" "doc_id d = doc_id doc"
    "v = get_checksum env d" by auto
  with v show ?thesis by (auto simp: current_checksums_def dict_of_def)
qed

lemma current_checksums_filter:
  "current_checksums env (filter (Q \<circ> doc_id) docs) k
     = (if Q k then current_checksums env docs k else None)"
proof (induction docs rule: rev_induct)
  case Nil
  show ?case by (simp add: current_checksums_def dict_of_def)
next
  case (snoc d docs)
  then show ?case by (auto simp: current_checksums_def dict_of_def)
qed

lemma synced_selects_nothing:
  assumes "\<forall>doc \<in> set docs. map_option checksum (ccf_docs (doc_id doc)) = Some (get_checksum env doc)"
  shows "docs_to_sync env ccf_docs docs = []"
proof -
  have "\<not> (case ccf_docs (doc_id doc) of None \<Rightarrow> True
            | Some entry \<Rightarrow> Some (checksum entry) \<noteq> current_checksums env docs (doc_id doc))"
    if "doc \<in> set docs" for doc
  proof -
    from current_checksums_member [OF that] obtain d where d: "d \<in> set docs"
      "doc_id d = doc_id doc" "current_checksums env docs (doc_id doc) = Some (get_checksum env d)"
      by blast
    from assms d(1) have "map_option checksum (ccf_docs (doc_id d)) = Some (get_checksum env d)"
      by blast
    with d show ?thesis by (auto split: option.splits)
  qed
  then show ?thesis by (simp add: docs_to_sync_def filter_empty_conv)
qed

lemma upload_phase_syncs:
  "docs_to_sync env (ledger_after_put env now_iso ccf_docs docs) docs = []"
proof -
  define Q where "Q = (\<lambda>k. case ccf_docs k of None \<Rightarrow> True
                   | Some entry \<Rightarrow> Some (checksum entry) \<noteq> current_checksums env docs k)"
  have chosen: "docs_to_sync env ccf_docs docs = filter (Q \<circ> doc_id) docs"
    by (simp add: docs_to_sync_by_id Q_def)
  show ?thesis
  proof (cases "docs_to_sync env ccf_docs docs = []")
    case True
    then show ?thesis by (simp add: ledger_after_put_def)
  next
    case False
    then have after: "ledger_after_put env now_iso ccf_docs docs
        = ledger_put now_iso (current_checksums env (filter (Q \<circ> doc_id) docs)) ccf_docs"
      by (simp add: ledger_after_put_def chosen Let_def)
    have "map_option checksum (ledger_after_put env now_iso ccf_docs docs (doc_id doc))
            = current_checksums env docs (doc_id doc)"
      if "doc \<in> set docs" for doc
    proof -
      from current_checksums_member [OF that] obtain c where
        c: "current_checksums env docs (doc_id doc) = Some c" by blast
      show ?thesis
      proof (cases "Q (doc_id doc)")
        case True
        with c show ?thesis
          by (simp add: after ledger_put_def current_checksums_filter)
      next
        case False
        with c show ?thesis
          by (auto simp: after ledger_put_def current_checksums_filter Q_def split: option.splits)
      qed
    qed
    then have "\<not> (case ledger_after_put env now_iso ccf_docs docs (doc_id doc) of None \<Rightarrow> True
            | Some entry \<Rightarrow> Some (checksum entry) \<noteq> current_checksums env docs (doc_id doc))"
      if "doc \<in> set docs" for doc
      using that current_checksums_member [OF that, of env]
      by (fastforce split: option.splits)
    then show ?thesis by (simp add: docs_to_sync_def filter_empty_conv)
  qed
qed

lemma docs_to_sync_ledger_cong:
  assumes "\<forall>doc \<in> set docs. ledger1 (doc_id doc) = ledger2 (doc_id doc)"
  shows "docs_to_sync env ledger1 docs = docs_to_sync env ledger2 docs"
  unfolding docs_to_sync_def using assms by (intro filter_cong) auto

lemma second_run_selects_nothing:
  assumes "\<forall>doc \<in> set docs. doc_id doc \<notin> set documents_to_delete"
  shows "docs_to_sync env (ledger_after_sync env now_iso ccf_docs docs documents_to_delete) docs
           = []"
proof -
  have "\<forall>doc \<in> set docs.
          ledger_after_sync env now_iso ccf_docs docs documents_to_delete (doc_id doc)
            = ledger_after_put env now_iso ccf_docs docs (doc_id doc)"
    using assms by (simp add: ledger_after_sync_def ledger_delete_def Let_def)
  from docs_to_sync_ledger_cong [OF this] upload_phase_syncs show ?thesis by simp
qed

text \<open>
  Claim C9, as the code has it. When the ledger holds, for the id of every local document,
  that document's current checksum, no document is chosen for sync. After a run of
  \<^verbatim>\<open>sync\<close> whose calls all succeeded, a second run over the same documents chooses
  nothing, for any starting ledger, provided no id of those documents was on the first
  run's list of documents to delete: the delete phase follows the upload phase and takes
  the listed ids out of the ledger again.
\<close>

theorem reconcile_idempotent:
  "((\<forall>doc \<in> set docs.
        map_option checksum (ccf_docs (doc_id doc)) = Some (get_checksum env doc)) \<longrightarrow>
      docs_to_sync env ccf_docs docs = [])
   \<and> ((\<forall>doc \<in> set docs. doc_id doc \<notin> set documents_to_delete) \<longrightarrow>
      docs_to_sync env (ledger_after_sync env now_iso ccf_docs docs documents_to_delete) docs
        = [])"
  using synced_selects_nothing [of docs ccf_docs env]
    second_run_selects_nothing [of docs documents_to_delete env now_iso ccf_docs]
  by blast

theorem reconcile_idempotent_witness:
  "docs_to_sync env0 ledger0 [doc_a] = []
   \<and> docs_to_sync env0 Map.empty [doc_a, doc_b] = [doc_a, doc_b]
   \<and> docs_to_sync env0 (ledger_after_sync env0 iso_t1 Map.empty [doc_a, doc_b] [''c''])
        [doc_a, doc_b] = []"
proof -
  have synced: "\<forall>doc \<in> set [doc_a].
      map_option checksum (ledger0 (doc_id doc)) = Some (get_checksum env0 doc)"
    by (simp add: ledger0_def doc_a_def)
  have first: "docs_to_sync env0 Map.empty [doc_a, doc_b] = [doc_a, doc_b]"
    by (simp add: docs_to_sync_def)
  have apart: "\<forall>doc \<in> set [doc_a, doc_b]. doc_id doc \<notin> set [''c'']"
    by (simp add: doc_a_def doc_b_def)
  from reconcile_idempotent [of "[doc_a]" ledger0 env0] synced
  have a: "docs_to_sync env0 ledger0 [doc_a] = []" by blast
  from reconcile_idempotent [of "[doc_a, doc_b]" Map.empty env0 "[''c'']" iso_t1] apart
  have b: "docs_to_sync env0 (ledger_after_sync env0 iso_t1 Map.empty [doc_a, doc_b] [''c''])
             [doc_a, doc_b] = []"
    by blast
  from a first b show ?thesis by blast
qed

text \<open>
  The claim as worded fails for its second run: the producer lists for deletion the id of a
  document it also yields. The first run uploads the document, writes its checksum and
  deletes the entry again, and the second run over the same documents chooses it anew.
\<close>

theorem second_run_counterexample:
  "docs_to_sync env0 Map.empty [doc_a] = [doc_a]
   \<and> ledger_after_sync env0 iso_t1 Map.empty [doc_a] [''a''] ''a'' = None
   \<and> docs_to_sync env0 (ledger_after_sync env0 iso_t1 Map.empty [doc_a] [''a'']) [doc_a]
       = [doc_a]"
  by (simp add: docs_to_sync_def ledger_after_sync_def ledger_delete_def doc_a_def)

section \<open>Batches sent to the index\<close>

lemmas upload_defs =
  batch_put_documents_def prepare_document_for_upload_def handle_large_document_def
  get_size_def PUT_MAX_DOCS_def PUT_MAX_TOTAL_SIZE_def PUT_MAX_SINGLE_SIZE_def
  batch_payload_def blob_size_def build_document_def

text \<open>Two bounds hold for every list of documents: a dispatched batch holds at most ten
  documents, and every document in a dispatched batch was prepared from a document of at
  most 50 MiB, so a larger document is in no batch.\<close>

lemma prepare_within_ceiling:
  assumes "prepare_document_for_upload env doc = Inr (Some q)"
  shows "get_size env doc \<le> PUT_MAX_SINGLE_SIZE \<and> q_id q = doc_id doc"
proof -
  have id: "q_id (build_document doc ct content) = doc_id doc" for ct content
    by (simp add: build_document_def Let_def)
  from assms show ?thesis
    unfolding prepare_document_for_upload_def Let_def
    by (auto simp: id split: option.splits if_splits)
qed

lemma batch_loop_count:
  assumes "length batch < PUT_MAX_DOCS" and "\<forall>b \<in> set sent. length b \<le> PUT_MAX_DOCS"
  shows "\<forall>b \<in> set (snd (batch_loop env docs batch acc sent)). length b \<le> PUT_MAX_DOCS"
  using assms
proof (induction docs arbitrary: batch acc sent)
  case Nil
  then show ?case by auto
next
  case (Cons doc docs)
  show ?case
  proof (cases "prepare_document_for_upload env doc")
    case (Inl e)
    with Cons.prems show ?thesis by simp
  next
    case (Inr r)
    show ?thesis
    proof (cases r)
      case None
      have "\<forall>b \<in> set (snd (batch_loop env docs batch acc sent)). length b \<le> PUT_MAX_DOCS"
        using Cons.prems by (rule Cons.IH)
      with Inr None show ?thesis by simp
    next
      case (Some q)
      let ?b2 = "batch @ [q]"
      let ?n2 = "acc + get_size env doc"
      show ?thesis
      proof (cases "length ?b2 = PUT_MAX_DOCS \<or> ?n2 \<ge> PUT_MAX_TOTAL_SIZE")
        case True
        have "\<forall>b \<in> set (snd (batch_loop env docs [] 0 (sent @ [?b2]))). length b \<le> PUT_MAX_DOCS"
        proof (rule Cons.IH)
          show "length ([] :: QBusinessDocument list) < PUT_MAX_DOCS" by (simp add: PUT_MAX_DOCS_def)
          from Cons.prems show "\<forall>b \<in> set (sent @ [?b2]). length b \<le> PUT_MAX_DOCS" by auto
        qed
        with True Inr Some show ?thesis by (simp add: Let_def)
      next
        case False
        have "\<forall>b \<in> set (snd (batch_loop env docs ?b2 ?n2 sent)). length b \<le> PUT_MAX_DOCS"
        proof (rule Cons.IH)
          from Cons.prems False show "length ?b2 < PUT_MAX_DOCS" by auto
          from Cons.prems show "\<forall>b \<in> set sent. length b \<le> PUT_MAX_DOCS" by simp
        qed
        with False Inr Some show ?thesis by (simp add: Let_def)
      qed
    qed
  qed
qed

lemma batch_loop_prepared:
  assumes "\<forall>b \<in> set sent. \<forall>q \<in> set b. P q" and "\<forall>q \<in> set batch. P q"
    and "\<forall>doc \<in> set docs. \<forall>q. prepare_document_for_upload env doc = Inr (Some q) \<longrightarrow> P q"
  shows "\<forall>b \<in> set (snd (batch_loop env docs batch acc sent)). \<forall>q \<in> set b. P q"
  using assms
proof (induction docs arbitrary: batch acc sent)
  case Nil
  then show ?case by auto
next
  case (Cons doc docs)
  show ?case
  proof (cases "prepare_document_for_upload env doc")
    case (Inl e)
    with Cons.prems show ?thesis by simp
  next
    case (Inr r)
    show ?thesis
    proof (cases r)
      case None
      have "\<forall>b \<in> set (snd (batch_loop env docs batch acc sent)). \<forall>q \<in> set b. P q"
      proof (rule Cons.IH)
        from Cons.prems show "\<forall>b \<in> set sent. \<forall>q \<in> set b. P q" by simp
        from Cons.prems show "\<forall>q \<in> set batch. P q" by simp
        from Cons.prems show "\<forall>doc \<in> set docs. \<forall>q.
            prepare_document_for_upload env doc = Inr (Some q) \<longrightarrow> P q" by simp
      qed
      with Inr None show ?thesis by simp
    next
      case (Some q)
      with Inr Cons.prems have q: "P q" by simp
      let ?b2 = "batch @ [q]"
      let ?n2 = "acc + get_size env doc"
      show ?thesis
      proof (cases "length ?b2 = PUT_MAX_DOCS \<or> ?n2 \<ge> PUT_MAX_TOTAL_SIZE")
        case True
        have "\<forall>b \<in> set (snd (batch_loop env docs [] 0 (sent @ [?b2]))). \<forall>q \<in> set b. P q"
        proof (rule Cons.IH)
          from Cons.prems q show "\<forall>b \<in> set (sent @ [?b2]). \<forall>q \<in> set b. P q" by auto
          show "\<forall>q \<in> set ([] :: QBusinessDocument list). P q" by simp
          from Cons.prems show "\<forall>doc \<in> set docs. \<forall>q.
              prepare_document_for_upload env doc = Inr (Some q) \<longrightarrow> P q" by simp
        qed
        with True Inr Some show ?thesis by (simp add: Let_def)
      next
        case False
        have "\<forall>b \<in> set (snd (batch_loop env docs ?b2 ?n2 sent)). \<forall>q \<in> set b. P q"
        proof (rule Cons.IH)
          from Cons.prems show "\<forall>b \<in> set sent. \<forall>q \<in> set b. P q" by simp
          from Cons.prems q show "\<forall>q \<in> set ?b2. P q" by auto
          from Cons.prems show "\<forall>doc \<in> set docs. \<forall>q.
              prepare_document_for_upload env doc = Inr (Some q) \<longrightarrow> P q" by simp
        qed
        with False Inr Some show ?thesis by (simp add: Let_def)
      qed
    qed
  qed
qed

lemma batches_hold_at_most_ten:
  "b \<in> set (snd (batch_put_documents env docs)) \<Longrightarrow> length b \<le> 10"
  using batch_loop_count [of "[]" "[]" env docs 0]
  by (simp add: batch_put_documents_def PUT_MAX_DOCS_def)

lemma oversized_never_dispatched:
  assumes "b \<in> set (snd (batch_put_documents env docs))" and "q \<in> set b"
  shows "\<exists>doc \<in> set docs. prepare_document_for_upload env doc = Inr (Some q)
           \<and> q_id q = doc_id doc \<and> get_size env doc \<le> 50 * 1024 * 1024"
proof -
  let ?P = "\<lambda>q. \<exists>doc \<in> set docs. prepare_document_for_upload env doc = Inr (Some q)
           \<and> q_id q = doc_id doc \<and> get_size env doc \<le> 50 * 1024 * 1024"
  have "\<forall>b \<in> set (snd (batch_loop env docs [] 0 [])). \<forall>q \<in> set b. ?P q"
  proof (rule batch_loop_prepared)
    show "\<forall>doc \<in> set docs. \<forall>q. prepare_document_for_upload env doc = Inr (Some q) \<longrightarrow> ?P q"
    proof (intro ballI allI impI)
      fix doc q assume d: "doc \<in> set docs" "prepare_document_for_upload env doc = Inr (Some q)"
      from prepare_within_ceiling [OF d(2)] d show "?P q"
        by (auto simp: PUT_MAX_SINGLE_SIZE_def)
    qed
  qed simp_all
  with assms show ?thesis by (simp add: batch_put_documents_def)
qed

text \<open>
  Claim C7, at an input where the code departs from it. The cumulative cap is tested after
  the document has been appended, so a batch is sent once it has reached 10 MiB, not
  before it would exceed it: two text files of 6 MiB each leave in one batch that carries
  12582912 bytes inline, above the cap of 10485760.
\<close>

theorem batch_exceeds_total_size:
  "get_size env0 doc_a = 6291456 \<and> get_size env0 doc_b = 6291456
   \<and> fst (batch_put_documents env0 [doc_a, doc_b]) = None
   \<and> map (map q_id) (snd (batch_put_documents env0 [doc_a, doc_b])) = [[''a'', ''b'']]
   \<and> map batch_payload (snd (batch_put_documents env0 [doc_a, doc_b])) = [12582912]
   \<and> PUT_MAX_TOTAL_SIZE = 10485760"
  by (simp add: upload_defs builder_samples Let_def)

end
